theory Spec2Isabelle
  imports Main "HOL-Library.Sublist"
begin

section \<open>Python values, exceptions and the outside world\<close>

text \<open>
  The module \<^verbatim>\<open>mc_ssh/mccli.py\<close> is the command line front end of mc_ssh. Everything
  it does is printing and calling functions of two sibling modules (\<^verbatim>\<open>ssh_service\<close>,
  \<^verbatim>\<open>utils\<close>). The model threads a \<open>world\<close> through the code: the lines printed to
  standard output so far, and the list of calls made to those sibling functions so far.
\<close>

datatype pyval = PyNone | PyStr string | PyBytes string

text \<open>
  Exceptions, by the classes the \<^verbatim>\<open>except\<close> clauses of the module tell apart. The
  first field is \<^verbatim>\<open>str(e)\<close>; the three \<^verbatim>\<open>OSError\<close> subclasses carry their
  \<^verbatim>\<open>filename\<close> attribute. \<open>OtherException\<close> is any other subclass of \<^verbatim>\<open>Exception\<close>,
  \<open>NonException\<close> a \<^verbatim>\<open>BaseException\<close> outside \<^verbatim>\<open>Exception\<close> (a keyboard interrupt,
  a system exit).
\<close>

datatype exn =
    PermissionError string pyval
  | IsADirectoryError string pyval
  | FileNotFoundError string pyval
  | OtherException string
  | NonException string

fun str_exn :: "exn \<Rightarrow> string" where
  "str_exn (PermissionError m f) = m"
| "str_exn (IsADirectoryError m f) = m"
| "str_exn (FileNotFoundError m f) = m"
| "str_exn (OtherException m) = m"
| "str_exn (NonException m) = m"

fun is_Exception :: "exn \<Rightarrow> bool" where
  "is_Exception (NonException m) = False"
| "is_Exception e = True"

text \<open>One constructor for each imported function, with the arguments of the call.\<close>

datatype call =
    InitEndpoint "string option" string bool
  | InitToken "string option" "string option" "string option" string bool
  | InitUser string string bool
  | StrInitToken "string option" "string option" "string option"
  | SshInteractive string string string int
  | SshExec string string string int string
  | ScpGet string string string int string string bool bool
  | ScpPut string string string int string string bool bool

fun is_resolution :: "call \<Rightarrow> bool" where
  "is_resolution (InitEndpoint m h v) = True"
| "is_resolution (InitToken t a i e v) = True"
| "is_resolution (InitUser e t v) = True"
| "is_resolution c = False"

fun is_transport :: "call \<Rightarrow> bool" where
  "is_transport (SshInteractive h u t p) = True"
| "is_transport (SshExec h u t p c) = True"
| "is_transport (ScpGet h u t p s d r pt) = True"
| "is_transport (ScpPut h u t p s d r pt) = True"
| "is_transport c = False"

record world =
  calls :: "call list"
  stdout :: "string list"

text \<open>
  The imported functions are parameters of the model. Each one gets the calls made so
  far, so that its answer may depend on everything that happened before (the network
  may answer the same question differently the second time), and either raises or
  returns. The two Python built-ins whose result is not fixed here (decoding bytes as
  UTF-8, the \<^verbatim>\<open>repr\<close> of bytes inside an f-string) are parameters as well.
\<close>

record env =
  init_endpoint :: "call list \<Rightarrow> string option \<Rightarrow> string \<Rightarrow> bool \<Rightarrow> exn + string"
  init_token :: "call list \<Rightarrow> string option \<Rightarrow> string option \<Rightarrow> string option
                   \<Rightarrow> string \<Rightarrow> bool \<Rightarrow> exn + string"
  init_user :: "call list \<Rightarrow> string \<Rightarrow> string \<Rightarrow> bool \<Rightarrow> exn + string"
  str_init_token :: "call list \<Rightarrow> string option \<Rightarrow> string option \<Rightarrow> string option
                   \<Rightarrow> exn + string"
  ssh_interactive :: "call list \<Rightarrow> string \<Rightarrow> string \<Rightarrow> string \<Rightarrow> int \<Rightarrow> exn + unit"
  ssh_exec :: "call list \<Rightarrow> string \<Rightarrow> string \<Rightarrow> string \<Rightarrow> int \<Rightarrow> string \<Rightarrow> exn + unit"
  scp_get :: "call list \<Rightarrow> string \<Rightarrow> string \<Rightarrow> string \<Rightarrow> int \<Rightarrow> string \<Rightarrow> string
                   \<Rightarrow> bool \<Rightarrow> bool \<Rightarrow> exn + unit"
  scp_put :: "call list \<Rightarrow> string \<Rightarrow> string \<Rightarrow> string \<Rightarrow> int \<Rightarrow> string \<Rightarrow> string
                   \<Rightarrow> bool \<Rightarrow> bool \<Rightarrow> exn + unit"
  decode_utf8 :: "string \<Rightarrow> exn + string"
  repr_bytes :: "string \<Rightarrow> string"

text \<open>
  Modelled from the spec: the constant \<^verbatim>\<open>SSH_PORT\<close> is imported from
  \<^verbatim>\<open>ssh_service\<close>, which is not part of the sources at hand; the specification gives
  the default port as 22.
\<close>

definition SSH_PORT :: int where
  "SSH_PORT = 22"

subsection \<open>Running code in the world\<close>

type_synonym 'a run = "world \<Rightarrow> (exn + 'a) \<times> world"

definition ret :: "'a \<Rightarrow> 'a run" where
  "ret x w = (Inr x, w)"

definition raise :: "exn \<Rightarrow> 'a run" where
  "raise e w = (Inl e, w)"

definition and_then :: "'a run \<Rightarrow> ('a \<Rightarrow> 'b run) \<Rightarrow> 'b run" where
  "and_then m k w = (case m w of (Inl e, w') \<Rightarrow> (Inl e, w') | (Inr x, w') \<Rightarrow> k x w')"

definition extern :: "call \<Rightarrow> (call list \<Rightarrow> exn + 'a) \<Rightarrow> 'a run" where
  "extern c f w = (f (calls w), w\<lparr>calls := calls w @ [c]\<rparr>)"

definition emit :: "string \<Rightarrow> world \<Rightarrow> world" where
  "emit s w = w\<lparr>stdout := stdout w @ [s]\<rparr>"

definition print :: "string \<Rightarrow> unit run" where
  "print s w = (Inr (), emit s w)"

text \<open>A \<^verbatim>\<open>for\<close> loop over a list whose body updates the local variables \<open>l\<close>.\<close>

fun for_loop :: "('a \<Rightarrow> 's \<Rightarrow> 's run) \<Rightarrow> 'a list \<Rightarrow> 's \<Rightarrow> 's run" where
  "for_loop body [] l w = (Inr l, w)"
| "for_loop body (x # xs) l w =
     (case body x l w of
        (Inl e, w') \<Rightarrow> (Inl e, w')
      | (Inr l', w') \<Rightarrow> for_loop body xs l' w')"

subsection \<open>Calls of the imported functions\<close>

definition call_init_endpoint :: "env \<Rightarrow> string option \<Rightarrow> string \<Rightarrow> bool \<Rightarrow> string run" where
  "call_init_endpoint E mc_endpoint hostname verify =
     extern (InitEndpoint mc_endpoint hostname verify)
       (\<lambda>h. init_endpoint E h mc_endpoint hostname verify)"

definition call_init_token ::
  "env \<Rightarrow> string option \<Rightarrow> string option \<Rightarrow> string option \<Rightarrow> string \<Rightarrow> bool \<Rightarrow> string run" where
  "call_init_token E token oa_account iss mc_url verify =
     extern (InitToken token oa_account iss mc_url verify)
       (\<lambda>h. init_token E h token oa_account iss mc_url verify)"

definition call_init_user :: "env \<Rightarrow> string \<Rightarrow> string \<Rightarrow> bool \<Rightarrow> string run" where
  "call_init_user E mc_url tok verify =
     extern (InitUser mc_url tok verify) (\<lambda>h. init_user E h mc_url tok verify)"

definition call_str_init_token ::
  "env \<Rightarrow> string option \<Rightarrow> string option \<Rightarrow> string option \<Rightarrow> string run" where
  "call_str_init_token E token oa_account iss =
     extern (StrInitToken token oa_account iss) (\<lambda>h. str_init_token E h token oa_account iss)"

definition call_ssh_interactive :: "env \<Rightarrow> string \<Rightarrow> string \<Rightarrow> string \<Rightarrow> int \<Rightarrow> unit run" where
  "call_ssh_interactive E hostname user tok p =
     extern (SshInteractive hostname user tok p) (\<lambda>h. ssh_interactive E h hostname user tok p)"

definition call_ssh_exec ::
  "env \<Rightarrow> string \<Rightarrow> string \<Rightarrow> string \<Rightarrow> int \<Rightarrow> string \<Rightarrow> unit run" where
  "call_ssh_exec E hostname user tok p command =
     extern (SshExec hostname user tok p command)
       (\<lambda>h. ssh_exec E h hostname user tok p command)"

definition call_scp_get ::
  "env \<Rightarrow> string \<Rightarrow> string \<Rightarrow> string \<Rightarrow> int \<Rightarrow> string \<Rightarrow> string \<Rightarrow> bool \<Rightarrow> bool \<Rightarrow> unit run" where
  "call_scp_get E host user tok port src_path dest_path recursive preserve_times =
     extern (ScpGet host user tok port src_path dest_path recursive preserve_times)
       (\<lambda>h. scp_get E h host user tok port src_path dest_path recursive preserve_times)"

definition call_scp_put ::
  "env \<Rightarrow> string \<Rightarrow> string \<Rightarrow> string \<Rightarrow> int \<Rightarrow> string \<Rightarrow> string \<Rightarrow> bool \<Rightarrow> bool \<Rightarrow> unit run" where
  "call_scp_put E host user tok port src_path dest_path recursive preserve_times =
     extern (ScpPut host user tok port src_path dest_path recursive preserve_times)
       (\<lambda>h. scp_put E h host user tok port src_path dest_path recursive preserve_times)"

text \<open>
  The three calls that resolve a session for one host: the endpoint, the access token
  and the user name, in this order. The module writes them out three times (for the
  host of \<^verbatim>\<open>ssh\<close>, for the target of \<^verbatim>\<open>scp\<close> and for each remote source of \<^verbatim>\<open>scp\<close>).
  The result is the pair of the local variables \<^verbatim>\<open>at\<close> and \<^verbatim>\<open>username\<close>.
\<close>

definition resolve_session ::
  "env \<Rightarrow> string option \<Rightarrow> bool \<Rightarrow> string option \<Rightarrow> string option \<Rightarrow> string option
     \<Rightarrow> string \<Rightarrow> (string \<times> string) run" where
  "resolve_session E mc_endpoint verify token oa_account iss hostname =
     and_then (call_init_endpoint E mc_endpoint hostname verify) (\<lambda>mc_url.
     and_then (call_init_token E token oa_account iss mc_url verify) (\<lambda>tok.
     and_then (call_init_user E mc_url tok verify) (\<lambda>user.
     ret (tok, user))))"

subsection \<open>Formatting\<close>

definition sq :: string where
  "sq = [CHR 0x27]"

definition digit :: "nat \<Rightarrow> char" where
  "digit n = ''0123456789'' ! (n mod 10)"

function str_nat :: "nat \<Rightarrow> string" where
  "str_nat n = (if n < 10 then [digit n] else str_nat (n div 10) @ [digit (n mod 10)])"
  by pat_completeness auto
termination
  by (relation "measure id") auto

declare str_nat.simps [simp del]

text \<open>Python's \<^verbatim>\<open>str\<close> of an integer, as an f-string prints a port.\<close>

definition str_int :: "int \<Rightarrow> string" where
  "str_int i = (if i < 0 then CHR ''-'' # str_nat (nat (- i)) else str_nat (nat i))"

text \<open>What an f-string prints for the \<^verbatim>\<open>filename\<close> attribute of an exception.\<close>

fun format_pyval :: "env \<Rightarrow> pyval \<Rightarrow> string" where
  "format_pyval E PyNone = ''None''"
| "format_pyval E (PyStr s) = s"
| "format_pyval E (PyBytes b) = repr_bytes E b"

text \<open>
  \<^verbatim>\<open>e.filename.decode('utf-8')\<close>: only bytes have the method; on a string and on
  \<^verbatim>\<open>None\<close> the attribute lookup raises an \<^verbatim>\<open>AttributeError\<close>.
\<close>

fun decode_filename :: "env \<Rightarrow> pyval \<Rightarrow> exn + string" where
  "decode_filename E (PyBytes b) = decode_utf8 E b"
| "decode_filename E (PyStr s) =
     Inl (OtherException (sq @ ''str'' @ sq @ '' object has no attribute '' @ sq @ ''decode'' @ sq))"
| "decode_filename E PyNone =
     Inl (OtherException (sq @ ''NoneType'' @ sq @ '' object has no attribute '' @ sq @ ''decode'' @ sq))"

section \<open>The subcommands\<close>

subsection \<open>ssh\<close>

text \<open>The option string of the dry run of \<^verbatim>\<open>ssh\<close> (lines 64 to 66).\<close>

definition ssh_opts :: "int \<Rightarrow> string" where
  "ssh_opts p = (if p \<noteq> 0 \<and> p \<noteq> SSH_PORT then '' -p '' @ str_int p else '''')"

text \<open>The body of the \<^verbatim>\<open>try\<close> block of \<^verbatim>\<open>ssh\<close> (lines 59 to 75).\<close>

definition ssh_try ::
  "env \<Rightarrow> string option \<Rightarrow> bool \<Rightarrow> string option \<Rightarrow> string option \<Rightarrow> string option
     \<Rightarrow> bool \<Rightarrow> int \<Rightarrow> string \<Rightarrow> string option \<Rightarrow> unit run" where
  "ssh_try E mc_endpoint verify token oa_account iss dry_run p hostname command =
     and_then (resolve_session E mc_endpoint verify token oa_account iss hostname)
       (\<lambda>(tok, user).
          if dry_run then
            and_then (call_str_init_token E token oa_account iss) (\<lambda>password.
              let sshpass_cmd = ''sshpass -P 'Access Token' -p '' @ password @ '' ssh ''
                                  @ ssh_opts p @ '' '' @ user @ ''@'' @ hostname
              in print (case command of
                          None \<Rightarrow> sshpass_cmd
                        | Some c \<Rightarrow> if c \<noteq> [] then sshpass_cmd @ '' '' @ sq @ c @ sq
                                    else sshpass_cmd))
          else
            (case command of
               None \<Rightarrow> call_ssh_interactive E hostname user tok p
             | Some c \<Rightarrow> call_ssh_exec E hostname user tok p c))"

text \<open>
  \<^verbatim>\<open>ssh\<close> itself: the \<^verbatim>\<open>try\<close> block and its handler \<^verbatim>\<open>except Exception as e: print(e)\<close>.
  The first component of the result is the exception that leaves the function, if any.
\<close>

definition ssh ::
  "env \<Rightarrow> string option \<Rightarrow> bool \<Rightarrow> string option \<Rightarrow> string option \<Rightarrow> string option
     \<Rightarrow> bool \<Rightarrow> int \<Rightarrow> string \<Rightarrow> string option \<Rightarrow> world \<Rightarrow> exn option \<times> world" where
  "ssh E mc_endpoint verify token oa_account iss dry_run p hostname command w =
     (case ssh_try E mc_endpoint verify token oa_account iss dry_run p hostname command w of
        (Inr u, w') \<Rightarrow> (None, w')
      | (Inl e, w') \<Rightarrow>
          if is_Exception e then (None, emit (str_exn e) w') else (Some e, w'))"

subsection \<open>scp\<close>

text \<open>The option string of the dry run of \<^verbatim>\<open>scp\<close> (lines 97 to 103).\<close>

definition scp_opts :: "bool \<Rightarrow> bool \<Rightarrow> int \<Rightarrow> string" where
  "scp_opts recursive preserve_times port =
     (if recursive then '' -r'' else '''')
     @ (if preserve_times then '' -p'' else '''')
     @ (if port \<noteq> 0 \<and> port \<noteq> SSH_PORT then '' -P '' @ str_int port else '''')"

text \<open>
  The local variables of \<^verbatim>\<open>scp\<close> that are assigned on some paths only; \<open>None\<close> is
  an unbound variable, and reading one raises.
\<close>

record locals =
  at :: "string option"
  username :: "string option"
  sshpass_cmd :: "string option"

definition read_local :: "string \<Rightarrow> string option \<Rightarrow> string run" where
  "read_local name v =
     (case v of
        Some x \<Rightarrow> ret x
      | None \<Rightarrow> raise (OtherException
          (''local variable '' @ sq @ name @ sq @ '' referenced before assignment'')))"

text \<open>
  Lines 95 to 104, before the \<^verbatim>\<open>try\<close> block: in a dry run the command line is
  started, otherwise \<^verbatim>\<open>sshpass_cmd\<close> stays unbound.
\<close>

definition scp_prelude ::
  "env \<Rightarrow> string option \<Rightarrow> string option \<Rightarrow> string option \<Rightarrow> bool \<Rightarrow> int \<Rightarrow> bool \<Rightarrow> bool
     \<Rightarrow> string option run" where
  "scp_prelude E token oa_account iss dry_run port recursive preserve_times =
     (if dry_run then
        and_then (call_str_init_token E token oa_account iss) (\<lambda>password.
          ret (Some (''sshpass -P 'Access Token' -p '' @ password @ '' scp ''
                       @ scp_opts recursive preserve_times port)))
      else ret None)"

text \<open>
  The body of the loop over the sources (lines 114 to 140). A source and the target
  are dictionaries with the keys \<^verbatim>\<open>"host"\<close> and \<^verbatim>\<open>"path"\<close>.
\<close>

definition scp_source ::
  "env \<Rightarrow> string option \<Rightarrow> bool \<Rightarrow> string option \<Rightarrow> string option \<Rightarrow> string option
     \<Rightarrow> bool \<Rightarrow> int \<Rightarrow> bool \<Rightarrow> bool \<Rightarrow> string option \<Rightarrow> string
     \<Rightarrow> (string \<rightharpoonup> string) \<Rightarrow> locals \<Rightarrow> locals run" where
  "scp_source E mc_endpoint verify token oa_account iss dry_run port recursive preserve_times
     dest_host dest_path src l =
     (let src_path = (case src ''path'' of None \<Rightarrow> ''.'' | Some p \<Rightarrow> p);
          src_host = src ''host''
      in and_then
           (case src_host of
              Some h \<Rightarrow>
                and_then (resolve_session E mc_endpoint verify token oa_account iss h)
                  (\<lambda>(tok, user). ret (l\<lparr>at := Some tok, username := Some user\<rparr>))
            | None \<Rightarrow> ret l)
           (\<lambda>l.
              case (src_host, dest_host) of
                (None, None) \<Rightarrow>
                  raise (OtherException ''No remote host specified. Use regular cp instead.'')
              | (Some sh, Some dh) \<Rightarrow>
                  raise (OtherException ''scp between remote hosts not yet supported.'')
              | (Some sh, None) \<Rightarrow>
                  if dry_run then
                    and_then (read_local ''sshpass_cmd'' (sshpass_cmd l)) (\<lambda>cmd.
                    and_then (read_local ''username'' (username l)) (\<lambda>user.
                    ret (l\<lparr>sshpass_cmd :=
                               Some (cmd @ '' '' @ user @ ''@'' @ sh @ '':'' @ src_path)\<rparr>)))
                  else
                    and_then (read_local ''username'' (username l)) (\<lambda>user.
                    and_then (read_local ''at'' (at l)) (\<lambda>tok.
                    and_then (call_scp_get E sh user tok port src_path dest_path
                                recursive preserve_times) (\<lambda>u.
                    ret l)))
              | (None, Some dh) \<Rightarrow>
                  if dry_run then
                    and_then (read_local ''sshpass_cmd'' (sshpass_cmd l)) (\<lambda>cmd.
                    ret (l\<lparr>sshpass_cmd := Some (cmd @ '' '' @ src_path)\<rparr>))
                  else
                    and_then (read_local ''username'' (username l)) (\<lambda>user.
                    and_then (read_local ''at'' (at l)) (\<lambda>tok.
                    and_then (call_scp_put E dh user tok port src_path dest_path
                                recursive preserve_times) (\<lambda>u.
                    ret l)))))"

text \<open>
  Lines 106 to 112: the target is looked at first, and a session is resolved for it
  when it names a host. The result is the local variables before the loop.
\<close>

definition scp_target ::
  "env \<Rightarrow> string option \<Rightarrow> bool \<Rightarrow> string option \<Rightarrow> string option \<Rightarrow> string option
     \<Rightarrow> string option \<Rightarrow> string option \<Rightarrow> locals run" where
  "scp_target E mc_endpoint verify token oa_account iss dest_host cmd0 =
     (case dest_host of
        Some h \<Rightarrow>
          and_then (resolve_session E mc_endpoint verify token oa_account iss h)
            (\<lambda>(tok, user). ret \<lparr>at = Some tok, username = Some user, sshpass_cmd = cmd0\<rparr>)
      | None \<Rightarrow> ret \<lparr>at = None, username = None, sshpass_cmd = cmd0\<rparr>)"

text \<open>Lines 141 to 146, after the loop: the dry run ends and prints its command line.\<close>

definition scp_finish :: "bool \<Rightarrow> string option \<Rightarrow> string \<Rightarrow> locals \<Rightarrow> unit run" where
  "scp_finish dry_run dest_host dest_path l =
     (if dry_run then
        and_then (read_local ''sshpass_cmd'' (sshpass_cmd l)) (\<lambda>cmd.
          case dest_host of
            Some h \<Rightarrow>
              and_then (read_local ''username'' (username l)) (\<lambda>user.
                print (cmd @ '' '' @ user @ ''@'' @ h @ '':'' @ dest_path))
          | None \<Rightarrow> print (cmd @ '' '' @ dest_path))
      else ret ())"

text \<open>
  The body of the \<^verbatim>\<open>try\<close> block of \<^verbatim>\<open>scp\<close> (lines 106 to 146): the target, the loop
  over the sources, the end of the dry run.
\<close>

definition scp_try ::
  "env \<Rightarrow> string option \<Rightarrow> bool \<Rightarrow> string option \<Rightarrow> string option \<Rightarrow> string option
     \<Rightarrow> bool \<Rightarrow> int \<Rightarrow> bool \<Rightarrow> bool \<Rightarrow> (string \<rightharpoonup> string) list \<Rightarrow> (string \<rightharpoonup> string)
     \<Rightarrow> string option \<Rightarrow> unit run" where
  "scp_try E mc_endpoint verify token oa_account iss dry_run port recursive preserve_times
     source target cmd0 =
     (let dest_path = (case target ''path'' of None \<Rightarrow> ''.'' | Some p \<Rightarrow> p);
          dest_host = target ''host''
      in and_then (scp_target E mc_endpoint verify token oa_account iss dest_host cmd0) (\<lambda>l.
         and_then (for_loop
                     (scp_source E mc_endpoint verify token oa_account iss dry_run port
                        recursive preserve_times dest_host dest_path)
                     source l) (\<lambda>l.
         scp_finish dry_run dest_host dest_path l)))"

text \<open>
  The four handlers of \<^verbatim>\<open>scp\<close> (lines 147 to 154), tried in the order of the source.
  An exception raised inside a handler leaves the function, as does an exception that
  no handler matches.
\<close>

fun scp_except :: "env \<Rightarrow> exn \<Rightarrow> world \<Rightarrow> exn option \<times> world" where
  "scp_except E (PermissionError m f) w =
     (case decode_filename E f of
        Inl e' \<Rightarrow> (Some e', w)
      | Inr s \<Rightarrow> (None, emit (s @ '': Permission denied'') w))"
| "scp_except E (IsADirectoryError m f) w =
     (None, emit (format_pyval E f @ '': not a regular file'') w)"
| "scp_except E (FileNotFoundError m f) w =
     (None, emit (format_pyval E f @ '': No such file or directory'') w)"
| "scp_except E (OtherException m) w = (None, emit m w)"
| "scp_except E (NonException m) w = (Some (NonException m), w)"

definition scp ::
  "env \<Rightarrow> string option \<Rightarrow> bool \<Rightarrow> string option \<Rightarrow> string option \<Rightarrow> string option
     \<Rightarrow> bool \<Rightarrow> int \<Rightarrow> bool \<Rightarrow> bool \<Rightarrow> (string \<rightharpoonup> string) list \<Rightarrow> (string \<rightharpoonup> string)
     \<Rightarrow> world \<Rightarrow> exn option \<times> world" where
  "scp E mc_endpoint verify token oa_account iss dry_run port recursive preserve_times
     source target w =
     (case scp_prelude E token oa_account iss dry_run port recursive preserve_times w of
        (Inl e, w1) \<Rightarrow> (Some e, w1)
      | (Inr cmd0, w1) \<Rightarrow>
          (case scp_try E mc_endpoint verify token oa_account iss dry_run port recursive
                  preserve_times source target cmd0 w1 of
             (Inr u, w2) \<Rightarrow> (None, w2)
           | (Inl e, w2) \<Rightarrow> scp_except E e w2))"

subsection \<open>sftp\<close>

definition sftp :: "world \<Rightarrow> exn option \<times> world" where
  "sftp w = (None, emit ''Not implemented.'' w)"

section \<open>Measuring a run\<close>

text \<open>The calls that resolve the endpoint of the host \<open>h\<close>: one starts each session.\<close>

fun resolves_host :: "string \<Rightarrow> call \<Rightarrow> bool" where
  "resolves_host h (InitEndpoint m h' v) = (h' = h)"
| "resolves_host h c = False"

definition endpoint_calls :: "string \<Rightarrow> world \<Rightarrow> nat" where
  "endpoint_calls h w = length (filter (resolves_host h) (calls w))"

definition transport_calls :: "world \<Rightarrow> call list" where
  "transport_calls w = filter is_transport (calls w)"

definition resolution_calls :: "world \<Rightarrow> call list" where
  "resolution_calls w = filter is_resolution (calls w)"

text \<open>How often the host \<open>h\<close> is named by an invocation of \<^verbatim>\<open>scp\<close>.\<close>

definition host_occurrences ::
  "string \<Rightarrow> (string \<rightharpoonup> string) list \<Rightarrow> (string \<rightharpoonup> string) \<Rightarrow> nat" where
  "host_occurrences h source target =
     (if target ''host'' = Some h then 1 else 0)
     + length (filter (\<lambda>src. src ''host'' = Some h) source)"

text \<open>What follows \<^verbatim>\<open>user@host\<close> in the dry run of \<^verbatim>\<open>ssh\<close>: the quoted command, if any.\<close>

definition command_suffix :: "string option \<Rightarrow> string" where
  "command_suffix command =
     (case command of
        None \<Rightarrow> ''''
      | Some c \<Rightarrow> if c \<noteq> [] then '' '' @ sq @ c @ sq else '''')"

subsection \<open>The line a dry run of scp is to print\<close>

text \<open>
  A reference for the dry run of \<^verbatim>\<open>scp\<close>, to compare the printed line with. It is
  written from the layout of the command line alone: the operand of a dictionary is
  its path, after \<^verbatim>\<open>user@host:\<close> when it names a host, where the user is the one
  resolved for that host at that moment. \<open>None\<close> means that a resolution failed.
  The port occurs nowhere in it; the options are a parameter.
\<close>

definition path_of :: "(string \<rightharpoonup> string) \<Rightarrow> string" where
  "path_of d = (case d ''path'' of None \<Rightarrow> ''.'' | Some p \<Rightarrow> p)"

fun dry_run_operands ::
  "env \<Rightarrow> string option \<Rightarrow> bool \<Rightarrow> string option \<Rightarrow> string option \<Rightarrow> string option
     \<Rightarrow> (string \<rightharpoonup> string) list \<Rightarrow> world \<Rightarrow> (string \<times> world) option" where
  "dry_run_operands E mc v t a i [] w = Some ([], w)"
| "dry_run_operands E mc v t a i (src # rest) w =
     (case src ''host'' of
        None \<Rightarrow>
          (case dry_run_operands E mc v t a i rest w of
             None \<Rightarrow> None
           | Some (s, w') \<Rightarrow> Some ('' '' @ path_of src @ s, w'))
      | Some h \<Rightarrow>
          (case resolve_session E mc v t a i h w of
             (Inl e, w1) \<Rightarrow> None
           | (Inr (tok, user), w1) \<Rightarrow>
               (case dry_run_operands E mc v t a i rest w1 of
                  None \<Rightarrow> None
                | Some (s, w') \<Rightarrow>
                    Some ('' '' @ user @ ''@'' @ h @ '':'' @ path_of src @ s, w'))))"

definition target_operand ::
  "env \<Rightarrow> string option \<Rightarrow> bool \<Rightarrow> string option \<Rightarrow> string option \<Rightarrow> string option
     \<Rightarrow> (string \<rightharpoonup> string) \<Rightarrow> world \<Rightarrow> (string \<times> world) option" where
  "target_operand E mc v t a i target w =
     (case target ''host'' of
        None \<Rightarrow> Some ('' '' @ path_of target, w)
      | Some h \<Rightarrow>
          (case resolve_session E mc v t a i h w of
             (Inl e, w1) \<Rightarrow> None
           | (Inr (tok, user), w1) \<Rightarrow>
               Some ('' '' @ user @ ''@'' @ h @ '':'' @ path_of target, w1)))"

text \<open>
  The whole line for the option string \<open>opts\<close>, with the world in which it is
  printed: the password string first, then the session of the target, then the
  sessions of the sources in their order.
\<close>

definition scp_command_line ::
  "env \<Rightarrow> string option \<Rightarrow> bool \<Rightarrow> string option \<Rightarrow> string option \<Rightarrow> string option
     \<Rightarrow> string \<Rightarrow> (string \<rightharpoonup> string) list \<Rightarrow> (string \<rightharpoonup> string) \<Rightarrow> world
     \<Rightarrow> (string \<times> world) option" where
  "scp_command_line E mc v t a i opts source target w =
     (case call_str_init_token E t a i w of
        (Inl e, w1) \<Rightarrow> None
      | (Inr password, w1) \<Rightarrow>
          (case target_operand E mc v t a i target w1 of
             None \<Rightarrow> None
           | Some (tail, w2) \<Rightarrow>
               (case dry_run_operands E mc v t a i source w2 of
                  None \<Rightarrow> None
                | Some (rest, w3) \<Rightarrow>
                    Some (''sshpass -P 'Access Token' -p '' @ password @ '' scp '' @ opts
                            @ rest @ tail, w3))))"

section \<open>A concrete environment\<close>

text \<open>
  An environment to run the model in: every host answers, the user name is always
  \<^verbatim>\<open>user\<close>, the token is the one given on the command line or else one found
  through the endpoint, and the password string of a dry run cannot be built when no
  source of tokens is given. Copying the local file \<^verbatim>\<open>secret\<close> is refused, with the
  file name as bytes.
\<close>

definition env_demo :: env where
  "env_demo = \<lparr>
     init_endpoint = (\<lambda>h mc host v. case mc of Some u \<Rightarrow> Inr u | None \<Rightarrow> Inr (''https://'' @ host)),
     init_token = (\<lambda>h t a i u v. case t of Some x \<Rightarrow> Inr x | None \<Rightarrow> Inr ''tok''),
     init_user = (\<lambda>h u t v. Inr ''user''),
     str_init_token = (\<lambda>h t a i.
        case t of Some x \<Rightarrow> Inr x | None \<Rightarrow>
       (case a of Some x \<Rightarrow> Inr (''`oidc-token '' @ x @ ''`'') | None \<Rightarrow>
       (case i of Some x \<Rightarrow> Inr (''`oidc-token '' @ x @ ''`'')
        | None \<Rightarrow> Inl (OtherException ''No access token found'')))),
     ssh_interactive = (\<lambda>h host u t p. Inr ()),
     ssh_exec = (\<lambda>h host u t p c. Inr ()),
     scp_get = (\<lambda>h host u t p s d r pt. Inr ()),
     scp_put = (\<lambda>h host u t p s d r pt.
        if s = ''secret'' then Inl (PermissionError ''Permission denied'' (PyBytes s)) else Inr ()),
     decode_utf8 = (\<lambda>b. Inr b),
     repr_bytes = (\<lambda>b. ''b'' @ sq @ b @ sq) \<rparr>"

definition w0 :: world where
  "w0 = \<lparr>calls = [], stdout = []\<rparr>"

section \<open>Basic facts\<close>

lemmas run_defs = ret_def raise_def and_then_def extern_def print_def emit_def read_local_def
lemmas call_defs = call_init_endpoint_def call_init_token_def call_init_user_def
  call_str_init_token_def call_ssh_interactive_def call_ssh_exec_def call_scp_get_def
  call_scp_put_def

lemma digit_in: "digit n \<in> set ''0123456789''"
proof -
  have "n mod 10 < length ''0123456789''" by simp
  then show ?thesis unfolding digit_def by (rule nth_mem)
qed

lemma str_nat_digits: "set (str_nat n) \<subseteq> set ''0123456789''"
proof (induction n rule: str_nat.induct)
  case (1 n)
  show ?case
  proof (cases "n < 10")
    case True
    then show ?thesis using digit_in [of n] by (subst str_nat.simps) simp
  next
    case False
    then show ?thesis using 1 digit_in [of "n mod 10"] by (subst str_nat.simps) simp
  qed
qed

lemma str_int_chars:
  assumes "c \<in> set (str_int i)"
  shows "c = CHR ''-'' \<or> c \<in> set ''0123456789''"
proof (cases "i < 0")
  case True
  with assms have "c = CHR ''-'' \<or> c \<in> set (str_nat (nat (- i)))"
    by (simp add: str_int_def)
  then show ?thesis using str_nat_digits by blast
next
  case False
  with assms have "c \<in> set (str_nat (nat i))"
    by (simp add: str_int_def)
  then show ?thesis using str_nat_digits by blast
qed



lemma str_int_no_P: "CHR ''P'' \<notin> set (str_int i)"
  using str_int_chars [of "CHR ''P''" i] by auto

lemma str_int_2222: "str_int 2222 = ''2222''"
  by (simp add: str_int_def str_nat.simps digit_def)

lemma sublist_needs_char: "sublist [a, b] xs \<Longrightarrow> b \<in> set xs"
  using set_mono_sublist [of "[a, b]" xs] by simp




lemma scp_opts_P: "sublist ''-P'' (scp_opts r pt port) \<longleftrightarrow> port \<noteq> 0 \<and> port \<noteq> SSH_PORT"
proof
  assume "sublist ''-P'' (scp_opts r pt port)"
  then have "CHR ''P'' \<in> set (scp_opts r pt port)" by (rule sublist_needs_char)
  then show "port \<noteq> 0 \<and> port \<noteq> SSH_PORT" using str_int_no_P [of port]
    by (auto simp: scp_opts_def split: if_splits)
next
  assume a: "port \<noteq> 0 \<and> port \<noteq> SSH_PORT"
  have "sublist ''-P'' (((if r then '' -r'' else '''') @ (if pt then '' -p'' else '''') @ '' '') @ ''-P'' @ ('' '' @ str_int port))"
    by (rule sublist_appendI)
  with a show "sublist ''-P'' (scp_opts r pt port)" by (simp add: scp_opts_def)
qed

lemma ssh_dry_run_line:
  assumes "resolve_session E mc v t a i host w = (Inr (tok, user), w1)"
      and "call_str_init_token E t a i w1 = (Inr pw, w2)"
  shows "ssh E mc v t a i True p host cmd w =
           (None, emit (''sshpass -P 'Access Token' -p '' @ pw @ '' ssh '' @ ssh_opts p
                          @ '' '' @ user @ ''@'' @ host @ command_suffix cmd) w2)"
  using assms
  by (simp add: ssh_def ssh_try_def and_then_def print_def command_suffix_def split: option.splits)

lemma scp_prelude_line:
  assumes "call_str_init_token E t a i w = (Inr pw, w1)"
  shows "scp_prelude E t a i True port r pt w =
           (Inr (Some (''sshpass -P 'Access Token' -p '' @ pw @ '' scp '' @ scp_opts r pt port)), w1)"
  using assms by (simp add: scp_prelude_def and_then_def ret_def)

section \<open>Traces of the building blocks\<close>

lemmas count_defs = endpoint_calls_def transport_calls_def resolution_calls_def

lemma resolve_session_trace:
  assumes "resolve_session E mc v t a i host w = (r, w')"
  shows "endpoint_calls h w' = endpoint_calls h w + (if host = h then 1 else 0)"
    and "transport_calls w' = transport_calls w"
    and "stdout w' = stdout w"
  using assms
  by (auto simp: resolve_session_def run_defs call_defs count_defs split: sum.splits)

lemma resolve_session_returns:
  assumes "resolve_session E mc v t a i host w = (Inr (tok, user), w')"
  shows "\<exists>mc_url. calls w' = calls w @ [InitEndpoint mc host v, InitToken t a i mc_url v,
                                          InitUser mc_url tok v]"
  using assms
  by (auto simp: resolve_session_def run_defs call_defs split: sum.splits)

lemma str_init_token_trace:
  assumes "call_str_init_token E t a i w = (r, w')"
  shows "calls w' = calls w @ [StrInitToken t a i]" and "stdout w' = stdout w"
  using assms by (auto simp: run_defs call_defs)

lemma scp_prelude_trace:
  assumes "scp_prelude E t a i dry_run port r pt w = (res, w')"
  shows "calls w' = calls w @ (if dry_run then [StrInitToken t a i] else [])"
    and "stdout w' = stdout w"
  using assms
  by (auto simp: scp_prelude_def run_defs call_defs split: if_splits sum.splits)

lemma scp_target_trace:
  assumes "scp_target E mc v t a i dest_host cmd0 w = (r, w')"
  shows "endpoint_calls h w' = endpoint_calls h w + (if dest_host = Some h then 1 else 0)"
    and "transport_calls w' = transport_calls w"
proof -
  show "endpoint_calls h w' = endpoint_calls h w + (if dest_host = Some h then 1 else 0)"
  proof (cases dest_host)
    case None
    with assms show ?thesis by (simp add: scp_target_def ret_def)
  next
    case (Some dh)
    obtain r1 w1 where rs: "resolve_session E mc v t a i dh w = (r1, w1)" by fastforce
    with assms Some have "w' = w1"
      by (auto simp: scp_target_def and_then_def ret_def split: sum.splits)
    with resolve_session_trace(1) [OF rs, of h] Some show ?thesis by simp
  qed
  show "transport_calls w' = transport_calls w"
  proof (cases dest_host)
    case None
    with assms show ?thesis by (simp add: scp_target_def ret_def)
  next
    case (Some dh)
    obtain r1 w1 where rs: "resolve_session E mc v t a i dh w = (r1, w1)" by fastforce
    with assms Some have "w' = w1"
      by (auto simp: scp_target_def and_then_def ret_def split: sum.splits)
    with resolve_session_trace(2) [OF rs] show ?thesis by simp
  qed
qed

lemma scp_source_endpoint_calls:
  assumes "scp_source E mc v t a i dry_run port r pt dest_host dest_path src l w = (res, w')"
  shows "endpoint_calls h w' = endpoint_calls h w + (if src ''host'' = Some h then 1 else 0)"
proof (cases "src ''host''")
  case None
  with assms show ?thesis
    by (auto simp: scp_source_def Let_def run_defs call_defs count_defs
             split: option.splits sum.splits if_splits)
next
  case (Some sh)
  obtain r1 w1 where rs: "resolve_session E mc v t a i sh w = (r1, w1)" by fastforce
  have "endpoint_calls h w' = endpoint_calls h w1"
    using assms Some rs
    by (auto simp: scp_source_def Let_def run_defs call_defs count_defs
             split: option.splits sum.splits if_splits)
  with resolve_session_trace(1) [OF rs, of h] Some show ?thesis by simp
qed

lemma for_loop_endpoint_calls_le:
  assumes "for_loop (scp_source E mc v t a i dry_run port r pt dest_host dest_path) xs l w
             = (res, w')"
  shows "endpoint_calls h w'
           \<le> endpoint_calls h w + length (filter (\<lambda>src. src ''host'' = Some h) xs)"
  using assms
proof (induction xs arbitrary: l w)
  case Nil
  then show ?case by simp
next
  case (Cons x xs)
  obtain r1 w1 where st: "scp_source E mc v t a i dry_run port r pt dest_host dest_path x l w
                            = (r1, w1)" by fastforce
  note c = scp_source_endpoint_calls [OF st, of h]
  show ?case
  proof (cases r1)
    case (Inl e)
    with st Cons.prems have "w' = w1" by simp
    with c show ?thesis by simp
  next
    case (Inr l1)
    with st Cons.prems
    have "for_loop (scp_source E mc v t a i dry_run port r pt dest_host dest_path) xs l1 w1
            = (res, w')" by simp
    from Cons.IH [OF this] c show ?thesis by (auto split: if_splits)
  qed
qed

lemma for_loop_endpoint_calls_eq:
  assumes "for_loop (scp_source E mc v t a i dry_run port r pt dest_host dest_path) xs l w
             = (Inr l', w')"
  shows "endpoint_calls h w'
           = endpoint_calls h w + length (filter (\<lambda>src. src ''host'' = Some h) xs)"
  using assms
proof (induction xs arbitrary: l w)
  case Nil
  then show ?case by simp
next
  case (Cons x xs)
  obtain r1 w1 where st: "scp_source E mc v t a i dry_run port r pt dest_host dest_path x l w
                            = (r1, w1)" by fastforce
  note c = scp_source_endpoint_calls [OF st, of h]
  show ?case
  proof (cases r1)
    case (Inl e)
    with st Cons.prems show ?thesis by simp
  next
    case (Inr l1)
    with st Cons.prems
    have "for_loop (scp_source E mc v t a i dry_run port r pt dest_host dest_path) xs l1 w1
            = (Inr l', w')" by simp
    from Cons.IH [OF this] c show ?thesis by (auto split: if_splits)
  qed
qed

lemma scp_finish_trace:
  assumes "scp_finish dry_run dest_host dest_path l w = (res, w')"
  shows "calls w' = calls w"
  using assms
  by (auto simp: scp_finish_def run_defs split: if_splits option.splits)

lemma scp_except_trace:
  assumes "scp_except E e w = (res, w')"
  shows "calls w' = calls w"
  using assms
  by (cases e) (auto simp: emit_def split: sum.splits)

section \<open>Loops that stop at the first error\<close>

lemma for_loop_abort:
  "for_loop body xs l w = (Inl e, w') \<Longrightarrow> for_loop body (xs @ ys) l w = (Inl e, w')"
proof (induction xs arbitrary: l w)
  case Nil
  then show ?case by simp
next
  case (Cons x xs)
  show ?case
  proof (cases "body x l w")
    case (Pair r w1)
    show ?thesis
    proof (cases r)
      case (Inl e1)
      with Pair Cons.prems show ?thesis by simp
    next
      case (Inr l1)
      with Pair Cons.prems have "for_loop body xs l1 w1 = (Inl e, w')" by simp
      then have "for_loop body (xs @ ys) l1 w1 = (Inl e, w')" by (rule Cons.IH)
      with Pair Inr show ?thesis by simp
    qed
  qed
qed

lemma for_loop_snoc_raises:
  assumes "\<And>l w. \<exists>e w'. body x l w = (Inl e, w')"
  shows "\<exists>e w'. for_loop body (xs @ [x]) l w = (Inl e, w')"
proof (induction xs arbitrary: l w)
  case Nil
  from assms [of l w] show ?case by auto
next
  case (Cons y ys)
  show ?case
  proof (cases "body y l w")
    case (Pair r w1)
    show ?thesis
    proof (cases r)
      case (Inl e1)
      with Pair show ?thesis by simp
    next
      case (Inr l1)
      with Pair Cons.IH [of l1 w1] show ?thesis by simp
    qed
  qed
qed

lemma endpoint_calls_cong: "calls w' = calls w \<Longrightarrow> endpoint_calls h w' = endpoint_calls h w"
  by (simp add: endpoint_calls_def)

lemma scp_try_endpoint_calls_le:
  assumes "scp_try E mc v t a i dry_run port r pt source target cmd0 w = (res, w')"
  shows "endpoint_calls h w' \<le> endpoint_calls h w + host_occurrences h source target"
proof -
  let ?dh = "target ''host''"
  let ?dp = "case target ''path'' of None \<Rightarrow> ''.'' | Some p \<Rightarrow> p"
  obtain rt w1 where tg: "scp_target E mc v t a i ?dh cmd0 w = (rt, w1)" by fastforce
  note c1 = scp_target_trace(1) [OF tg, of h]
  show ?thesis
  proof (cases rt)
    case (Inl e)
    with assms tg have "w' = w1" by (simp add: scp_try_def Let_def and_then_def)
    with c1 show ?thesis by (simp add: host_occurrences_def)
  next
    case (Inr l)
    obtain rl w2 where lp:
      "for_loop (scp_source E mc v t a i dry_run port r pt ?dh ?dp) source l w1 = (rl, w2)"
      by fastforce
    note c2 = for_loop_endpoint_calls_le [OF lp, of h]
    show ?thesis
    proof (cases rl)
      case (Inl e)
      with assms tg \<open>rt = Inr l\<close> lp have "w' = w2"
        by (simp add: scp_try_def Let_def and_then_def)
      with c1 c2 show ?thesis by (simp add: host_occurrences_def)
    next
      case (Inr l')
      with assms tg \<open>rt = Inr l\<close> lp
      have "scp_finish dry_run ?dh ?dp l' w2 = (res, w')"
        by (simp add: scp_try_def Let_def and_then_def)
      then have "calls w' = calls w2" by (rule scp_finish_trace)
      then have "endpoint_calls h w' = endpoint_calls h w2" by (rule endpoint_calls_cong)
      with c1 c2 show ?thesis by (simp add: host_occurrences_def)
    qed
  qed
qed

lemma scp_try_endpoint_calls_eq:
  assumes "scp_try E mc v t a i dry_run port r pt source target cmd0 w = (Inr u, w')"
  shows "endpoint_calls h w' = endpoint_calls h w + host_occurrences h source target"
proof -
  let ?dh = "target ''host''"
  let ?dp = "case target ''path'' of None \<Rightarrow> ''.'' | Some p \<Rightarrow> p"
  obtain rt w1 where tg: "scp_target E mc v t a i ?dh cmd0 w = (rt, w1)" by fastforce
  note c1 = scp_target_trace(1) [OF tg, of h]
  show ?thesis
  proof (cases rt)
    case (Inl e)
    with assms tg show ?thesis by (simp add: scp_try_def Let_def and_then_def)
  next
    case (Inr l)
    obtain rl w2 where lp:
      "for_loop (scp_source E mc v t a i dry_run port r pt ?dh ?dp) source l w1 = (rl, w2)"
      by fastforce
    show ?thesis
    proof (cases rl)
      case (Inl e)
      with assms tg \<open>rt = Inr l\<close> lp show ?thesis
        by (simp add: scp_try_def Let_def and_then_def)
    next
      case (Inr l')
      with lp have c2: "endpoint_calls h w2 = endpoint_calls h w1
                          + length (filter (\<lambda>src. src ''host'' = Some h) source)"
        using for_loop_endpoint_calls_eq by blast
      from Inr assms tg \<open>rt = Inr l\<close> lp
      have "scp_finish dry_run ?dh ?dp l' w2 = (Inr u, w')"
        by (simp add: scp_try_def Let_def and_then_def)
      then have "calls w' = calls w2" by (rule scp_finish_trace)
      then have "endpoint_calls h w' = endpoint_calls h w2" by (rule endpoint_calls_cong)
      with c1 c2 show ?thesis by (simp add: host_occurrences_def)
    qed
  qed
qed

lemma scp_prelude_endpoint_calls:
  assumes "scp_prelude E t a i dry_run port r pt w = (res, w')"
  shows "endpoint_calls h w' = endpoint_calls h w"
  using scp_prelude_trace(1) [OF assms] by (simp add: endpoint_calls_def)

lemma scp_opts_2222: "scp_opts True True 2222 = '' -r -p -P 2222''"
  by (simp add: scp_opts_def SSH_PORT_def str_int_2222)

lemma transport_calls_cong: "calls w' = calls w \<Longrightarrow> transport_calls w' = transport_calls w"
  by (simp add: transport_calls_def)

lemma resolution_calls_cong: "calls w' = calls w \<Longrightarrow> resolution_calls w' = resolution_calls w"
  by (simp add: resolution_calls_def)

lemma scp_try_local_only:
  assumes "src ''host'' = None" and "target ''host'' = None"
  shows "scp_try E mc v t a i dry_run port r pt (src # rest) target cmd0 w
           = (Inl (OtherException ''No remote host specified. Use regular cp instead.''), w)"
  using assms
  by (simp add: scp_try_def scp_target_def scp_source_def Let_def and_then_def ret_def raise_def)

lemma scp_source_remote_to_remote:
  assumes "src ''host'' = Some sh"
  shows "\<exists>e w'. scp_source E mc v t a i dry_run port r pt (Some dh) dest_path src l w
                   = (Inl e, w')
                 \<and> transport_calls w' = transport_calls w \<and> stdout w' = stdout w"
proof -
  obtain r1 w1 where rs: "resolve_session E mc v t a i sh w = (r1, w1)" by fastforce
  note tc = resolve_session_trace(2,3) [OF rs]
  show ?thesis
  proof (cases r1)
    case (Inl e)
    with rs assms tc show ?thesis
      by (simp add: scp_source_def Let_def and_then_def)
  next
    case (Inr p)
    with rs assms tc show ?thesis
      by (cases p) (simp add: scp_source_def Let_def and_then_def ret_def raise_def)
  qed
qed

lemma scp_source_remote_to_remote_returns:
  assumes "src ''host'' = Some sh"
      and "resolve_session E mc v t a i sh w = (Inr (tok, user), w1)"
  shows "scp_source E mc v t a i dry_run port r pt (Some dh) dest_path src l w
           = (Inl (OtherException ''scp between remote hosts not yet supported.''), w1)"
  using assms by (simp add: scp_source_def Let_def and_then_def ret_def raise_def)

lemma scp_try_same_loop:
  assumes "\<And>l w. for_loop (scp_source E mc v t a i dry_run port r pt (target ''host'')
                      (case target ''path'' of None \<Rightarrow> ''.'' | Some p \<Rightarrow> p)) xs l w
                  = for_loop (scp_source E mc v t a i dry_run port r pt (target ''host'')
                      (case target ''path'' of None \<Rightarrow> ''.'' | Some p \<Rightarrow> p)) ys l w"
  shows "scp E mc v t a i dry_run port r pt xs target w
           = scp E mc v t a i dry_run port r pt ys target w"
proof -
  have "for_loop (scp_source E mc v t a i dry_run port r pt (target ''host'')
            (case target ''path'' of None \<Rightarrow> ''.'' | Some p \<Rightarrow> p)) xs
        = for_loop (scp_source E mc v t a i dry_run port r pt (target ''host'')
            (case target ''path'' of None \<Rightarrow> ''.'' | Some p \<Rightarrow> p)) ys"
    using assms by (intro ext) simp
  then have eq: "scp_try E mc v t a i dry_run port r pt xs target
                   = scp_try E mc v t a i dry_run port r pt ys target"
    by (intro ext) (simp add: scp_try_def Let_def)
  show ?thesis unfolding scp_def eq by (rule refl)
qed

section \<open>The command line of a dry run\<close>

lemma for_loop_append:
  "for_loop body (xs @ ys) l w =
     (case for_loop body xs l w of
        (Inl e, w') \<Rightarrow> (Inl e, w')
      | (Inr l', w') \<Rightarrow> for_loop body ys l' w')"
proof (induction xs arbitrary: l w)
  case Nil
  show ?case by simp
next
  case (Cons x xs)
  show ?case
  proof (cases "body x l w")
    case (Pair r w1)
    then show ?thesis using Cons.IH by (cases r) simp_all
  qed
qed

lemma scp_source_dry_run_step:
  assumes step: "scp_source E mc v t a i True port r pt dh dp src l w = (Inr l1, w1)"
      and cmd: "sshpass_cmd l = Some c"
  shows "case src ''host'' of
           None \<Rightarrow> w1 = w \<and> sshpass_cmd l1 = Some (c @ '' '' @ path_of src)
                    \<and> username l1 = username l
         | Some h \<Rightarrow> dh = None
                    \<and> (\<exists>tok user. resolve_session E mc v t a i h w = (Inr (tok, user), w1)
                          \<and> sshpass_cmd l1 = Some (c @ '' '' @ user @ ''@'' @ h @ '':''
                                                       @ path_of src))"
proof (cases "src ''host''")
  case None
  with step cmd show ?thesis
    by (cases dh) (auto simp: scp_source_def Let_def run_defs path_of_def)
next
  case (Some sh)
  obtain r1 w0 where rs: "resolve_session E mc v t a i sh w = (r1, w0)" by fastforce
  show ?thesis
  proof (cases r1)
    case (Inl e)
    with step Some rs show ?thesis by (simp add: scp_source_def Let_def and_then_def)
  next
    case (Inr p)
    with step Some rs cmd show ?thesis
      by (cases p; cases dh) (auto simp: scp_source_def Let_def run_defs path_of_def)
  qed
qed

lemma for_loop_dry_run_operands:
  assumes "for_loop (scp_source E mc v t a i True port r pt dh dp) xs l w = (Inr l', w')"
      and "sshpass_cmd l = Some c"
  shows "\<exists>rest. dry_run_operands E mc v t a i xs w = Some (rest, w')
                \<and> sshpass_cmd l' = Some (c @ rest)
                \<and> (dh = None \<or> username l' = username l)"
  using assms
proof (induction xs arbitrary: l w c)
  case Nil
  then show ?case by auto
next
  case (Cons s xs)
  obtain r1 w1 where st: "scp_source E mc v t a i True port r pt dh dp s l w = (r1, w1)"
    by fastforce
  show ?case
  proof (cases r1)
    case (Inl e)
    with st Cons.prems show ?thesis by simp
  next
    case (Inr l1)
    note step = scp_source_dry_run_step [OF st [unfolded Inr] Cons.prems(2)]
    from st Inr Cons.prems(1)
    have lp: "for_loop (scp_source E mc v t a i True port r pt dh dp) xs l1 w1 = (Inr l', w')"
      by simp
    show ?thesis
    proof (cases "s ''host''")
      case None
      with step have w1: "w1 = w" and c1: "sshpass_cmd l1 = Some (c @ '' '' @ path_of s)"
        and u1: "username l1 = username l" by simp_all
      from Cons.IH [OF lp c1] obtain rest where
        "dry_run_operands E mc v t a i xs w1 = Some (rest, w')"
        "sshpass_cmd l' = Some ((c @ '' '' @ path_of s) @ rest)"
        "dh = None \<or> username l' = username l1" by blast
      with None w1 u1 show ?thesis by simp
    next
      case (Some h)
      with step obtain tok user where dh: "dh = None"
        and rs: "resolve_session E mc v t a i h w = (Inr (tok, user), w1)"
        and c1: "sshpass_cmd l1 = Some (c @ '' '' @ user @ ''@'' @ h @ '':'' @ path_of s)"
        by auto
      from Cons.IH [OF lp c1] obtain rest where
        "dry_run_operands E mc v t a i xs w1 = Some (rest, w')"
        "sshpass_cmd l' = Some ((c @ '' '' @ user @ ''@'' @ h @ '':'' @ path_of s) @ rest)"
        by blast
      with Some rs dh show ?thesis by simp
    qed
  qed
qed

lemma scp_target_dry_run:
  assumes "scp_target E mc v t a i (target ''host'') (Some c) w = (Inr l, w1)"
  shows "sshpass_cmd l = Some c
         \<and> (case target ''host'' of
               None \<Rightarrow> target_operand E mc v t a i target w = Some ('' '' @ path_of target, w1)
             | Some h \<Rightarrow> \<exists>user. username l = Some user
                   \<and> target_operand E mc v t a i target w
                       = Some ('' '' @ user @ ''@'' @ h @ '':'' @ path_of target, w1))"
proof (cases "target ''host''")
  case None
  with assms show ?thesis by (auto simp: scp_target_def target_operand_def ret_def)
next
  case (Some h)
  obtain r1 w0 where rs: "resolve_session E mc v t a i h w = (r1, w0)" by fastforce
  show ?thesis
  proof (cases r1)
    case (Inl e)
    with assms Some rs show ?thesis by (simp add: scp_target_def and_then_def)
  next
    case (Inr p)
    with assms Some rs show ?thesis
      by (cases p) (auto simp: scp_target_def target_operand_def and_then_def ret_def)
  qed
qed

lemma scp_try_dry_run_prints:
  assumes "scp_try E mc v t a i True port r pt source target (Some c) w = (Inr u, w')"
  shows "\<exists>tail w1 rest w2. target_operand E mc v t a i target w = Some (tail, w1)
           \<and> dry_run_operands E mc v t a i source w1 = Some (rest, w2)
           \<and> w' = emit (c @ rest @ tail) w2"
proof -
  let ?dh = "target ''host''"
  let ?dp = "case target ''path'' of None \<Rightarrow> ''.'' | Some p \<Rightarrow> p"
  obtain rt w1 where tg: "scp_target E mc v t a i ?dh (Some c) w = (rt, w1)" by fastforce
  show ?thesis
  proof (cases rt)
    case (Inl e)
    with assms tg show ?thesis by (simp add: scp_try_def Let_def and_then_def)
  next
    case (Inr l)
    note tgt = scp_target_dry_run [where target = target, OF tg [unfolded Inr]]
    obtain rl w2 where lp:
      "for_loop (scp_source E mc v t a i True port r pt ?dh ?dp) source l w1 = (rl, w2)"
      by fastforce
    show ?thesis
    proof (cases rl)
      case (Inl e)
      with assms tg \<open>rt = Inr l\<close> lp show ?thesis
        by (simp add: scp_try_def Let_def and_then_def)
    next
      case (Inr l')
      from tgt have c: "sshpass_cmd l = Some c" by simp
      from for_loop_dry_run_operands [OF lp [unfolded Inr] c]
      obtain rest where ops: "dry_run_operands E mc v t a i source w1 = Some (rest, w2)"
        and c': "sshpass_cmd l' = Some (c @ rest)"
        and u': "?dh = None \<or> username l' = username l" by blast
      from assms tg \<open>rt = Inr l\<close> lp Inr
      have fin: "scp_finish True ?dh ?dp l' w2 = (Inr u, w')"
        by (simp add: scp_try_def Let_def and_then_def)
      show ?thesis
      proof (cases ?dh)
        case None
        with tgt have "target_operand E mc v t a i target w = Some ('' '' @ path_of target, w1)"
          by simp
        moreover from fin None c' have "w' = emit (c @ rest @ '' '' @ path_of target) w2"
          by (auto simp: scp_finish_def run_defs path_of_def)
        ultimately show ?thesis using ops by blast
      next
        case (Some h)
        with tgt obtain user where ul: "username l = Some user"
          and top: "target_operand E mc v t a i target w
                      = Some ('' '' @ user @ ''@'' @ h @ '':'' @ path_of target, w1)"
          by auto
        from u' Some ul have "username l' = Some user" by simp
        with fin Some c'
        have "w' = emit (c @ rest @ '' '' @ user @ ''@'' @ h @ '':'' @ path_of target) w2"
          by (auto simp: scp_finish_def run_defs path_of_def)
        with top ops show ?thesis by blast
      qed
    qed
  qed
qed

lemma scp_dry_run_prints:
  assumes pw: "call_str_init_token E t a i w = (Inr password, w1)"
      and tr: "scp_try E mc v t a i True port r pt source target
                 (Some (''sshpass -P 'Access Token' -p '' @ password @ '' scp ''
                          @ scp_opts r pt port)) w1 = (Inr u, w2)"
  shows "\<exists>line w3. scp_command_line E mc v t a i (scp_opts r pt port) source target w
                     = Some (line, w3)
                   \<and> scp E mc v t a i True port r pt source target w = (None, emit line w3)"
proof -
  from scp_try_dry_run_prints [OF tr] obtain tail w1' rest w3 where
    "target_operand E mc v t a i target w1 = Some (tail, w1')"
    "dry_run_operands E mc v t a i source w1' = Some (rest, w3)"
    "w2 = emit ((''sshpass -P 'Access Token' -p '' @ password @ '' scp ''
                  @ scp_opts r pt port) @ rest @ tail) w3" by blast
  moreover have "scp E mc v t a i True port r pt source target w = (None, w2)"
    using scp_prelude_line [OF pw, of port r pt] tr by (simp add: scp_def)
  ultimately show ?thesis using pw by (simp add: scp_command_line_def)
qed

lemma scp_prelude_dry_run_returns:
  assumes "scp_prelude E t a i True port r pt w = (Inr cmd0, w1)"
  shows "\<exists>password. call_str_init_token E t a i w = (Inr password, w1)
           \<and> cmd0 = Some (''sshpass -P 'Access Token' -p '' @ password @ '' scp ''
                            @ scp_opts r pt port)"
proof -
  obtain r1 w0 where c: "call_str_init_token E t a i w = (r1, w0)" by fastforce
  with assms show ?thesis
    by (cases r1) (auto simp: scp_prelude_def and_then_def ret_def)
qed

lemma scp_dry_run_prints_line:
  assumes pr: "scp_prelude E t a i True port r pt w = (Inr cmd0, w1)"
      and tr: "scp_try E mc v t a i True port r pt source target cmd0 w1 = (Inr u, w2)"
  shows "\<exists>line w3. scp_command_line E mc v t a i (scp_opts r pt port) source target w
                     = Some (line, w3)
                   \<and> scp E mc v t a i True port r pt source target w = (None, emit line w3)"
proof -
  from scp_prelude_dry_run_returns [OF pr] obtain password where
    pw: "call_str_init_token E t a i w = (Inr password, w1)"
    and c: "cmd0 = Some (''sshpass -P 'Access Token' -p '' @ password @ '' scp ''
                           @ scp_opts r pt port)" by blast
  from scp_dry_run_prints [OF pw tr [unfolded c]] show ?thesis .
qed

lemma scp_opts_default_port:
  "scp_opts r pt SSH_PORT = (if r then '' -r'' else '''') @ (if pt then '' -p'' else '''')"
  by (simp add: scp_opts_def)

lemma scp_opts_port_zero:
  "scp_opts r pt 0 = (if r then '' -r'' else '''') @ (if pt then '' -p'' else '''')"
  by (simp add: scp_opts_def)

lemma ssh_opts_default_port: "ssh_opts SSH_PORT = ''''" "ssh_opts 0 = ''''"
  by (simp_all add: ssh_opts_def)

section \<open>Errors that are caught and errors that are not\<close>

text \<open>
  In \<^verbatim>\<open>ssh\<close> everything, the building of the dry-run command line included, is
  inside the \<^verbatim>\<open>try\<close> block: an exception that leaves \<^verbatim>\<open>ssh\<close> is never of class
  \<^verbatim>\<open>Exception\<close>.
\<close>

lemma ssh_catches_every_Exception:
  assumes "ssh E mc v t a i dry_run p hostname command w = (Some e, w')"
  shows "\<not> is_Exception e"
  using assms by (auto simp: ssh_def split: prod.splits sum.splits if_splits)

text \<open>
  In \<^verbatim>\<open>scp\<close> the dry-run command line is started before the \<^verbatim>\<open>try\<close> block: an
  exception raised there leaves the function, and nothing is printed for it.
\<close>

lemma prelude_error_leaves_scp:
  assumes "scp_prelude E t a i dry_run port r pt w = (Inl e, w1)"
  shows "scp E mc v t a i dry_run port r pt source target w = (Some e, w1)"
  using assms by (simp add: scp_def)

text \<open>
  The handler of \<^verbatim>\<open>PermissionError\<close> decodes the file name, so it raises itself when
  the file name is a string and not bytes; that exception leaves \<^verbatim>\<open>scp\<close> as well.
\<close>

lemma scp_except_str_filename_escapes:
  "scp_except E (PermissionError m (PyStr s)) w
     = (Some (OtherException
               (sq @ ''str'' @ sq @ '' object has no attribute '' @ sq @ ''decode'' @ sq)), w)"
  by simp

lemmas eval_defs = scp_def scp_prelude_def scp_try_def scp_target_def scp_source_def
  scp_finish_def resolve_session_def ssh_def ssh_try_def scp_opts_def ssh_opts_def
  SSH_PORT_def env_demo_def w0_def Let_def sq_def

section \<open>The claims\<close>

subsection \<open>C1\<close>

text \<open>
  C1, as amended. Take a dry run of \<^verbatim>\<open>scp\<close> with \<^verbatim>\<open>-r\<close>, \<^verbatim>\<open>-p\<close> and
  \<^verbatim>\<open>-P 2222\<close>, one local source and a remote target, in which the password string
  and the session of the target host are obtained without error. Then exactly one line
  is printed, \<^verbatim>\<open>sshpass -P 'Access Token' -p PASSWORD scp  -r -p -P 2222 SRC USER@HOST:DEST\<close>:
  the options of \<^verbatim>\<open>scp\<close> are the three flags, each once, in the fixed order
  \<^verbatim>\<open>-r -p -P 2222\<close>. No transport function is called. The run is not free of network
  calls: it resolves one session for the target host, with exactly one call each of
  \<^verbatim>\<open>init_endpoint\<close>, \<^verbatim>\<open>init_token\<close> and \<^verbatim>\<open>init_user\<close>, because the printed line
  needs the user name.
\<close>

theorem scp_dry_run_local_to_remote:
  assumes src: "src ''host'' = None"
      and tgt: "target ''host'' = Some h"
      and pw: "call_str_init_token E token oa_account iss w = (Inr password, w1)"
      and res: "resolve_session E mc_endpoint verify token oa_account iss h w1
                  = (Inr (tok, user), w2)"
  shows "scp E mc_endpoint verify token oa_account iss True 2222 True True [src] target w
           = (None, emit (''sshpass -P 'Access Token' -p '' @ password @ '' scp  -r -p -P 2222 ''
                            @ (case src ''path'' of None \<Rightarrow> ''.'' | Some p \<Rightarrow> p)
                            @ '' '' @ user @ ''@'' @ h @ '':''
                            @ (case target ''path'' of None \<Rightarrow> ''.'' | Some p \<Rightarrow> p)) w2)
         \<and> transport_calls w2 = transport_calls w
         \<and> (\<exists>mc_url. calls w2 = calls w @ [StrInitToken token oa_account iss,
                                            InitEndpoint mc_endpoint h verify,
                                            InitToken token oa_account iss mc_url verify,
                                            InitUser mc_url tok verify])"
proof (intro conjI)
  have pre: "scp_prelude E token oa_account iss True 2222 True True w
               = (Inr (Some (''sshpass -P 'Access Token' -p '' @ password @ '' scp ''
                               @ '' -r -p -P 2222'')), w1)"
    using scp_prelude_line [OF pw, of 2222 True True] by (simp only: scp_opts_2222)
  show "scp E mc_endpoint verify token oa_account iss True 2222 True True [src] target w
           = (None, emit (''sshpass -P 'Access Token' -p '' @ password @ '' scp  -r -p -P 2222 ''
                            @ (case src ''path'' of None \<Rightarrow> ''.'' | Some p \<Rightarrow> p)
                            @ '' '' @ user @ ''@'' @ h @ '':''
                            @ (case target ''path'' of None \<Rightarrow> ''.'' | Some p \<Rightarrow> p)) w2)"
    using pre src tgt res
    by (simp add: scp_def scp_try_def scp_target_def scp_source_def scp_finish_def Let_def
                  and_then_def ret_def read_local_def print_def)
  from str_init_token_trace(1) [OF pw] resolve_session_returns [OF res]
  show "\<exists>mc_url. calls w2 = calls w @ [StrInitToken token oa_account iss,
                                       InitEndpoint mc_endpoint h verify,
                                       InitToken token oa_account iss mc_url verify,
                                       InitUser mc_url tok verify]"
    by auto
  then show "transport_calls w2 = transport_calls w"
    by (auto simp: transport_calls_def)
qed

text \<open>
  C1 as stated fails: the dry run of
  \<^verbatim>\<open>scp --token T --dry-run -r -p -P 2222 a.txt host:/tmp\<close> calls \<^verbatim>\<open>init_endpoint\<close>,
  \<^verbatim>\<open>init_token\<close> and \<^verbatim>\<open>init_user\<close> for the target host before it prints its line.
\<close>

theorem scp_dry_run_network_counterexample:
  "scp env_demo None True (Some ''T'') None None True 2222 True True
     [[''path'' \<mapsto> ''a.txt'']] [''host'' \<mapsto> ''host'', ''path'' \<mapsto> ''/tmp''] w0
   = (None, \<lparr>calls = [StrInitToken (Some ''T'') None None,
                       InitEndpoint None ''host'' True,
                       InitToken (Some ''T'') None None ''https://host'' True,
                       InitUser ''https://host'' ''T'' True],
             stdout = [''sshpass -P 'Access Token' -p T scp  -r -p -P 2222 a.txt user@host:/tmp'']\<rparr>)"
  by (simp add: eval_defs run_defs call_defs str_int_2222)

text \<open>
  The amended C1 at the invocation of the counterexample.
\<close>

theorem scp_dry_run_local_to_remote_witness:
  "[''path'' \<mapsto> ''a.txt''] ''host'' = None
   \<and> [''host'' \<mapsto> ''host'', ''path'' \<mapsto> ''/tmp''] ''host'' = Some ''host''
   \<and> call_str_init_token env_demo (Some ''T'') None None w0
       = (Inr ''T'', \<lparr>calls = [StrInitToken (Some ''T'') None None], stdout = []\<rparr>)
   \<and> stdout (snd (scp env_demo None True (Some ''T'') None None True 2222 True True
                [[''path'' \<mapsto> ''a.txt'']] [''host'' \<mapsto> ''host'', ''path'' \<mapsto> ''/tmp''] w0))
       = [''sshpass -P 'Access Token' -p T scp  -r -p -P 2222 a.txt user@host:/tmp'']"
proof -
  let ?w1 = "\<lparr>calls = [StrInitToken (Some ''T'') None None], stdout = []\<rparr>"
  let ?w2 = "\<lparr>calls = [StrInitToken (Some ''T'') None None,
                       InitEndpoint None ''host'' True,
                       InitToken (Some ''T'') None None ''https://host'' True,
                       InitUser ''https://host'' ''T'' True], stdout = []\<rparr>"
  have s: "[''path'' \<mapsto> ''a.txt''] ''host'' = None" by simp
  have t: "[''host'' \<mapsto> ''host'', ''path'' \<mapsto> ''/tmp''] ''host'' = Some ''host''" by simp
  have p: "call_str_init_token env_demo (Some ''T'') None None w0 = (Inr ''T'', ?w1)"
    by (simp add: call_defs run_defs env_demo_def w0_def)
  have r: "resolve_session env_demo None True (Some ''T'') None None ''host'' ?w1
             = (Inr (''T'', ''user''), ?w2)"
    by (simp add: resolve_session_def call_defs run_defs env_demo_def)
  from scp_dry_run_local_to_remote
         [where src = "[''path'' \<mapsto> ''a.txt'']"
            and target = "[''host'' \<mapsto> ''host'', ''path'' \<mapsto> ''/tmp'']"
            and mc_endpoint = None and verify = True, OF s t p r] s t p
  show ?thesis
    by (simp add: emit_def)
qed

subsection \<open>C2\<close>

text \<open>
  C2, at an input where the code breaks it. A dry run of \<^verbatim>\<open>scp\<close> with no source of
  tokens: \<^verbatim>\<open>str_init_token\<close> raises at line 96, before the \<^verbatim>\<open>try\<close> block is entered,
  so the exception leaves \<^verbatim>\<open>scp\<close> and nothing is printed. The same options given to
  \<^verbatim>\<open>ssh\<close>, where the call is inside the \<^verbatim>\<open>try\<close> block, print the message and
  return normally.
\<close>

theorem scp_dry_run_prelude_error_escapes:
  "scp env_demo None True None None None True 22 False False
     [[''path'' \<mapsto> ''a.txt'']] [''host'' \<mapsto> ''host'', ''path'' \<mapsto> ''/tmp''] w0
   = (Some (OtherException ''No access token found''),
      \<lparr>calls = [StrInitToken None None None], stdout = []\<rparr>)
   \<and> ssh env_demo None True None None None True 22 ''host'' None w0
   = (None,
      \<lparr>calls = [InitEndpoint None ''host'' True,
                InitToken None None None ''https://host'' True,
                InitUser ''https://host'' ''tok'' True,
                StrInitToken None None None],
        stdout = [''No access token found'']\<rparr>)"
  by (simp add: eval_defs run_defs call_defs)

subsection \<open>C3\<close>

text \<open>
  C3, as amended. An invocation of \<^verbatim>\<open>scp\<close> starts a session resolution once for
  each time a host is named, not once for each distinct host: for every host \<open>h\<close>, the
  number of calls of \<^verbatim>\<open>init_endpoint\<close> for \<open>h\<close> grows by at most the number of
  occurrences of \<open>h\<close> among the target and the sources, and by exactly that number when
  the \<^verbatim>\<open>try\<close> block ends without an exception. Nothing is kept from one source to
  the next.
\<close>

theorem scp_resolves_once_per_occurrence:
  "endpoint_calls h (snd (scp E mc v t a i dry_run port r pt source target w))
     \<le> endpoint_calls h w + host_occurrences h source target
   \<and> (\<forall>cmd0 w1 u w2.
         scp_prelude E t a i dry_run port r pt w = (Inr cmd0, w1) \<longrightarrow>
         scp_try E mc v t a i dry_run port r pt source target cmd0 w1 = (Inr u, w2) \<longrightarrow>
         endpoint_calls h w2 = endpoint_calls h w + host_occurrences h source target)"
proof (intro conjI allI impI)
  obtain rp w1 where pr: "scp_prelude E t a i dry_run port r pt w = (rp, w1)" by fastforce
  note c0 = scp_prelude_endpoint_calls [OF pr, of h]
  show "endpoint_calls h (snd (scp E mc v t a i dry_run port r pt source target w))
          \<le> endpoint_calls h w + host_occurrences h source target"
  proof (cases rp)
    case (Inl e)
    with pr c0 show ?thesis by (simp add: scp_def)
  next
    case (Inr cmd0)
    obtain rt w2 where tr:
      "scp_try E mc v t a i dry_run port r pt source target cmd0 w1 = (rt, w2)" by fastforce
    note c1 = scp_try_endpoint_calls_le [OF tr, of h]
    show ?thesis
    proof (cases rt)
      case (Inl e)
      obtain re w3 where ex: "scp_except E e w2 = (re, w3)" by fastforce
      then have "calls w3 = calls w2" by (rule scp_except_trace)
      then have "endpoint_calls h w3 = endpoint_calls h w2" by (rule endpoint_calls_cong)
      with pr \<open>rp = Inr cmd0\<close> tr Inl ex c0 c1 show ?thesis by (simp add: scp_def)
    next
      case (Inr u)
      with pr \<open>rp = Inr cmd0\<close> tr c0 c1 show ?thesis by (simp add: scp_def)
    qed
  qed
next
  fix cmd0 w1 u w2
  assume pr: "scp_prelude E t a i dry_run port r pt w = (Inr cmd0, w1)"
    and tr: "scp_try E mc v t a i dry_run port r pt source target cmd0 w1 = (Inr u, w2)"
  from scp_prelude_endpoint_calls [OF pr, of h] scp_try_endpoint_calls_eq [OF tr, of h]
  show "endpoint_calls h w2 = endpoint_calls h w + host_occurrences h source target"
    by simp
qed

text \<open>
  C3 as stated fails: two sources on the same host \<^verbatim>\<open>h\<close> and a local target give two
  full resolutions (endpoint, token, user name) for \<^verbatim>\<open>h\<close>, one before each transfer.
\<close>

theorem scp_same_host_twice_counterexample:
  "calls (snd (scp env_demo None True (Some ''T'') None None False 22 False False
                 [[''host'' \<mapsto> ''h'', ''path'' \<mapsto> ''a.txt''],
                  [''host'' \<mapsto> ''h'', ''path'' \<mapsto> ''b.txt'']]
                 [''path'' \<mapsto> ''/tmp''] w0))
   = [InitEndpoint None ''h'' True,
      InitToken (Some ''T'') None None ''https://h'' True,
      InitUser ''https://h'' ''T'' True,
      ScpGet ''h'' ''user'' ''T'' 22 ''a.txt'' ''/tmp'' False False,
      InitEndpoint None ''h'' True,
      InitToken (Some ''T'') None None ''https://h'' True,
      InitUser ''https://h'' ''T'' True,
      ScpGet ''h'' ''user'' ''T'' 22 ''b.txt'' ''/tmp'' False False]"
  by (simp add: eval_defs run_defs call_defs)

text \<open>
  The amended C3 at the invocation of the counterexample: the run ends without an
  exception and has resolved the endpoint of \<^verbatim>\<open>h\<close> twice.
\<close>

theorem scp_resolves_once_per_occurrence_witness:
  "scp_prelude env_demo (Some ''T'') None None False 22 False False w0 = (Inr None, w0)
   \<and> fst (scp_try env_demo None True (Some ''T'') None None False 22 False False
             [[''host'' \<mapsto> ''h'', ''path'' \<mapsto> ''a.txt''],
              [''host'' \<mapsto> ''h'', ''path'' \<mapsto> ''b.txt'']]
             [''path'' \<mapsto> ''/tmp''] None w0) = Inr ()
   \<and> endpoint_calls ''h''
        (snd (scp_try env_demo None True (Some ''T'') None None False 22 False False
               [[''host'' \<mapsto> ''h'', ''path'' \<mapsto> ''a.txt''],
                [''host'' \<mapsto> ''h'', ''path'' \<mapsto> ''b.txt'']]
               [''path'' \<mapsto> ''/tmp''] None w0)) = 2"
proof -
  let ?src = "[[''host'' \<mapsto> ''h'', ''path'' \<mapsto> ''a.txt''],
               [''host'' \<mapsto> ''h'', ''path'' \<mapsto> ''b.txt'']]"
  let ?tgt = "[''path'' \<mapsto> ''/tmp'']"
  let ?run = "scp_try env_demo None True (Some ''T'') None None False 22 False False
                ?src ?tgt None w0"
  have p: "scp_prelude env_demo (Some ''T'') None None False 22 False False w0 = (Inr None, w0)"
    by (simp add: scp_prelude_def ret_def)
  have f: "fst ?run = Inr ()"
    by (simp add: eval_defs run_defs call_defs)
  then have t: "?run = (Inr (), snd ?run)"
    by (metis prod.collapse)
  from scp_resolves_once_per_occurrence
         [where h = "''h''" and source = ?src and target = ?tgt and w = w0 and E = env_demo
            and dry_run = False and port = 22 and r = False and pt = False]
       p t
  have "endpoint_calls ''h'' (snd ?run) = endpoint_calls ''h'' w0 + host_occurrences ''h'' ?src ?tgt"
    by blast
  with p f show ?thesis by (simp add: host_occurrences_def endpoint_calls_def w0_def)
qed

subsection \<open>C4\<close>

text \<open>
  C4. Once the processing of the sources \<open>xs\<close> has raised an exception \<open>e\<close>, no
  source listed after them is processed: whatever sources \<open>ys\<close> follow, the command
  ends in the handler of \<open>e\<close>, in the world reached when \<open>e\<close> was raised, and so
  behaves exactly as if \<open>ys\<close> were not there (the same calls, the same output, the same
  result).
\<close>

theorem scp_error_skips_remaining_sources:
  assumes prelude: "scp_prelude E token oa_account iss dry_run port recursive preserve_times w
                      = (Inr cmd0, w1)"
      and target: "scp_target E mc_endpoint verify token oa_account iss (target ''host'') cmd0 w1
                      = (Inr l, w2)"
      and raised: "for_loop
                     (scp_source E mc_endpoint verify token oa_account iss dry_run port recursive
                        preserve_times (target ''host'')
                        (case target ''path'' of None \<Rightarrow> ''.'' | Some p \<Rightarrow> p))
                     xs l w2 = (Inl e, w3)"
  shows "scp E mc_endpoint verify token oa_account iss dry_run port recursive preserve_times
           (xs @ ys) target w = scp_except E e w3
         \<and> scp E mc_endpoint verify token oa_account iss dry_run port recursive preserve_times
           (xs @ ys) target w
           = scp E mc_endpoint verify token oa_account iss dry_run port recursive preserve_times
               xs target w"
proof -
  have "scp E mc_endpoint verify token oa_account iss dry_run port recursive preserve_times
          (xs @ zs) target w = scp_except E e w3" for zs
    using prelude target for_loop_abort [OF raised, of zs]
    by (simp add: scp_def scp_try_def and_then_def Let_def)
  from this [of ys] this [of "[]"] show ?thesis by simp
qed

text \<open>
  C4 at a concrete invocation: copying \<^verbatim>\<open>secret\<close> and \<^verbatim>\<open>b.txt\<close> to \<^verbatim>\<open>h1:/tmp\<close>.
  The transfer of \<^verbatim>\<open>secret\<close> is refused, and \<^verbatim>\<open>b.txt\<close> is never transferred.
\<close>

theorem scp_error_skips_remaining_sources_witness:
  "scp_prelude env_demo (Some ''T'') None None False 22 False False w0 = (Inr None, w0)
   \<and> scp env_demo None True (Some ''T'') None None False 22 False False
        ([[''path'' \<mapsto> ''secret'']] @ [[''path'' \<mapsto> ''b.txt'']])
        [''host'' \<mapsto> ''h1'', ''path'' \<mapsto> ''/tmp''] w0
      = (None,
         \<lparr>calls = [InitEndpoint None ''h1'' True,
                   InitToken (Some ''T'') None None ''https://h1'' True,
                   InitUser ''https://h1'' ''T'' True,
                   ScpPut ''h1'' ''user'' ''T'' 22 ''secret'' ''/tmp'' False False],
           stdout = [''secret: Permission denied'']\<rparr>)"
proof -
  let ?tgt = "[''host'' \<mapsto> ''h1'', ''path'' \<mapsto> ''/tmp'']"
  let ?l = "\<lparr>at = Some ''T'', username = Some ''user'', sshpass_cmd = None\<rparr>"
  let ?w2 = "\<lparr>calls = [InitEndpoint None ''h1'' True,
                   InitToken (Some ''T'') None None ''https://h1'' True,
                   InitUser ''https://h1'' ''T'' True], stdout = []\<rparr>"
  let ?w3 = "\<lparr>calls = [InitEndpoint None ''h1'' True,
                   InitToken (Some ''T'') None None ''https://h1'' True,
                   InitUser ''https://h1'' ''T'' True,
                   ScpPut ''h1'' ''user'' ''T'' 22 ''secret'' ''/tmp'' False False],
              stdout = []\<rparr>"
  have p: "scp_prelude env_demo (Some ''T'') None None False 22 False False w0 = (Inr None, w0)"
    by (simp add: scp_prelude_def ret_def)
  have t: "scp_target env_demo None True (Some ''T'') None None (?tgt ''host'') None w0
             = (Inr ?l, ?w2)"
    by (simp add: scp_target_def resolve_session_def call_defs run_defs env_demo_def w0_def)
  have r: "for_loop
             (scp_source env_demo None True (Some ''T'') None None False 22 False False
                (?tgt ''host'') (case ?tgt ''path'' of None \<Rightarrow> ''.'' | Some p \<Rightarrow> p))
             [[''path'' \<mapsto> ''secret'']] ?l ?w2
           = (Inl (PermissionError ''Permission denied'' (PyBytes ''secret'')), ?w3)"
    by (simp add: scp_source_def Let_def call_defs run_defs env_demo_def)
  from scp_error_skips_remaining_sources
         [where target = ?tgt and ys = "[[''path'' \<mapsto> ''b.txt'']]", OF p t r]
  have "scp env_demo None True (Some ''T'') None None False 22 False False
          ([[''path'' \<mapsto> ''secret'']] @ [[''path'' \<mapsto> ''b.txt'']]) ?tgt w0
        = scp_except env_demo (PermissionError ''Permission denied'' (PyBytes ''secret'')) ?w3"
    by blast
  with p show ?thesis by (simp add: env_demo_def emit_def)
qed

subsection \<open>C5\<close>

text \<open>
  C5, as amended. Take an invocation of \<^verbatim>\<open>scp\<close> with at least one source in
  which neither a source nor the target names a host. It never calls a transport
  function and never resolves a session. If it is not a dry run, or if the dry run
  builds its password string without error, it prints exactly the message
  \<^verbatim>\<open>No remote host specified. Use regular cp instead.\<close> and returns normally.
\<close>

theorem scp_local_only_refused:
  assumes nonempty: "source \<noteq> []"
      and local_sources: "\<forall>src \<in> set source. src ''host'' = None"
      and local_target: "target ''host'' = None"
  shows "transport_calls (snd (scp E mc v t a i dry_run port r pt source target w))
           = transport_calls w
         \<and> resolution_calls (snd (scp E mc v t a i dry_run port r pt source target w))
           = resolution_calls w
         \<and> (\<forall>cmd0 w1. scp_prelude E t a i dry_run port r pt w = (Inr cmd0, w1) \<longrightarrow>
               scp E mc v t a i dry_run port r pt source target w
                 = (None, emit ''No remote host specified. Use regular cp instead.'' w1))
         \<and> (\<not> dry_run \<longrightarrow>
               scp E mc v t a i dry_run port r pt source target w
                 = (None, emit ''No remote host specified. Use regular cp instead.'' w))"
proof -
  from nonempty obtain src rest where source: "source = src # rest" by (cases source) auto
  with local_sources have src: "src ''host'' = None" by simp
  note tr = scp_try_local_only [where src = src and target = target, OF src local_target]
  have run: "scp E mc v t a i dry_run port r pt source target w
               = (None, emit ''No remote host specified. Use regular cp instead.'' w1)"
    if "scp_prelude E t a i dry_run port r pt w = (Inr cmd0, w1)" for cmd0 w1
    using that by (simp add: scp_def source tr)
  obtain rp w1 where pr: "scp_prelude E t a i dry_run port r pt w = (rp, w1)" by fastforce
  have tc: "transport_calls w1 = transport_calls w"
    and rc: "resolution_calls w1 = resolution_calls w"
    using scp_prelude_trace(1) [OF pr]
    by (simp_all add: transport_calls_def resolution_calls_def)
  have "calls (snd (scp E mc v t a i dry_run port r pt source target w)) = calls w1"
  proof (cases rp)
    case (Inl e)
    with pr show ?thesis by (simp add: scp_def)
  next
    case (Inr cmd0)
    with pr run [of cmd0 w1] show ?thesis by (simp add: emit_def)
  qed
  then have "transport_calls (snd (scp E mc v t a i dry_run port r pt source target w))
               = transport_calls w"
    and "resolution_calls (snd (scp E mc v t a i dry_run port r pt source target w))
               = resolution_calls w"
    using tc rc by (simp_all add: transport_calls_def resolution_calls_def)
  moreover have "scp E mc v t a i dry_run port r pt source target w
                   = (None, emit ''No remote host specified. Use regular cp instead.'' w)"
    if "\<not> dry_run"
    using that run [of None w] by (simp add: scp_prelude_def ret_def)
  ultimately show ?thesis using run by blast
qed

text \<open>
  C5 as stated fails in a dry run with no source of tokens: the command does not reach
  the check of the hosts, and fails with the error of \<^verbatim>\<open>str_init_token\<close> instead.
\<close>

theorem scp_local_only_dry_run_counterexample:
  "scp env_demo None True None None None True 22 False False
     [[''path'' \<mapsto> ''a.txt'']] [''path'' \<mapsto> ''b.txt''] w0
   = (Some (OtherException ''No access token found''),
      \<lparr>calls = [StrInitToken None None None], stdout = []\<rparr>)"
  by (simp add: eval_defs run_defs call_defs)

text \<open>
  The amended C5 at the invocation \<^verbatim>\<open>scp a.txt b.txt\<close>.
\<close>

theorem scp_local_only_refused_witness:
  "[''path'' \<mapsto> ''a.txt''] ''host'' = None
   \<and> [''path'' \<mapsto> ''b.txt''] ''host'' = None
   \<and> scp env_demo None True None None None False 22 False False
        [[''path'' \<mapsto> ''a.txt'']] [''path'' \<mapsto> ''b.txt''] w0
      = (None, \<lparr>calls = [], stdout = [''No remote host specified. Use regular cp instead.'']\<rparr>)"
proof -
  have n: "[[''path'' \<mapsto> ''a.txt'']] \<noteq> ([] :: (string \<rightharpoonup> string) list)" by simp
  have s: "\<forall>src \<in> set [[''path'' \<mapsto> ''a.txt'']]. src ''host'' = None" by simp
  have t: "[''path'' \<mapsto> ''b.txt''] ''host'' = None" by simp
  from scp_local_only_refused
         [where source = "[[''path'' \<mapsto> ''a.txt'']]" and target = "[''path'' \<mapsto> ''b.txt'']"
            and dry_run = False, OF n s t]
       t
  show ?thesis by (simp add: emit_def w0_def)
qed

subsection \<open>C6\<close>

text \<open>
  C6, as amended. Let the target name a host, and let \<open>src\<close> be a source that
  names a host, listed after the sources \<open>pre\<close> and before the sources \<open>rest\<close>.
  The command never gets past \<open>src\<close>: the run is the run without \<open>rest\<close>, and
  no transfer is attempted for \<open>src\<close> or for a source after it, so that the
  transport calls of the run are those of the run on \<open>pre\<close> alone. If the password
  string of a dry run and the session of the target are obtained, the sources \<open>pre\<close>
  are processed and the session of \<open>src\<close> is obtained, all without error, the
  command prints exactly the message \<^verbatim>\<open>scp between remote hosts not yet supported.\<close>
  and returns normally. In particular, when \<open>src\<close> is the first source no transport
  function is called at all, and the message is printed as soon as the two sessions are
  obtained.
\<close>

theorem scp_remote_to_remote_refused:
  assumes tgt: "target ''host'' = Some dh"
      and src: "src ''host'' = Some sh"
  shows "scp E mc v t a i dry_run port r pt (pre @ src # rest) target w
           = scp E mc v t a i dry_run port r pt (pre @ [src]) target w
         \<and> transport_calls (snd (scp E mc v t a i dry_run port r pt (src # rest) target w))
           = transport_calls w
         \<and> (\<forall>cmd0 w1 tok user w2 tok' user' w3.
               scp_prelude E t a i dry_run port r pt w = (Inr cmd0, w1) \<longrightarrow>
               resolve_session E mc v t a i dh w1 = (Inr (tok, user), w2) \<longrightarrow>
               resolve_session E mc v t a i sh w2 = (Inr (tok', user'), w3) \<longrightarrow>
               scp E mc v t a i dry_run port r pt (src # rest) target w
                 = (None, emit ''scp between remote hosts not yet supported.'' w3))
         \<and> transport_calls
             (snd (scp E mc v t a i dry_run port r pt (pre @ src # rest) target w))
           = transport_calls (snd (scp E mc v t a i dry_run port r pt pre target w))
         \<and> (\<forall>cmd0 w1 l w2 l' w3 tok user w4.
               scp_prelude E t a i dry_run port r pt w = (Inr cmd0, w1) \<longrightarrow>
               scp_target E mc v t a i (Some dh) cmd0 w1 = (Inr l, w2) \<longrightarrow>
               for_loop (scp_source E mc v t a i dry_run port r pt (Some dh)
                           (case target ''path'' of None \<Rightarrow> ''.'' | Some p \<Rightarrow> p))
                 pre l w2 = (Inr l', w3) \<longrightarrow>
               resolve_session E mc v t a i sh w3 = (Inr (tok, user), w4) \<longrightarrow>
               scp E mc v t a i dry_run port r pt (pre @ src # rest) target w
                 = (None, emit ''scp between remote hosts not yet supported.'' w4))"
proof (intro conjI allI impI)
  let ?dp = "case target ''path'' of None \<Rightarrow> ''.'' | Some p \<Rightarrow> p"
  let ?body = "scp_source E mc v t a i dry_run port r pt (Some dh) ?dp"
  have raises: "\<exists>e w'. ?body src l w = (Inl e, w')" for l w
    using scp_source_remote_to_remote [where src = src, OF src] by blast
  have same: "for_loop ?body (pre @ src # rest) l w = for_loop ?body (pre @ [src]) l w" for l w
  proof -
    from for_loop_snoc_raises [of ?body src pre l w] raises
    obtain e w' where "for_loop ?body (pre @ [src]) l w = (Inl e, w')" by blast
    with for_loop_abort [of ?body "pre @ [src]" l w e w' rest] show ?thesis by simp
  qed
  show "scp E mc v t a i dry_run port r pt (pre @ src # rest) target w
           = scp E mc v t a i dry_run port r pt (pre @ [src]) target w"
    by (rule scp_try_same_loop) (simp add: tgt same)
next
  let ?dp = "case target ''path'' of None \<Rightarrow> ''.'' | Some p \<Rightarrow> p"
  let ?body = "scp_source E mc v t a i dry_run port r pt (Some dh) ?dp"
  obtain rp w1 where pr: "scp_prelude E t a i dry_run port r pt w = (rp, w1)" by fastforce
  have t1: "transport_calls w1 = transport_calls w"
    using scp_prelude_trace(1) [OF pr] by (simp add: transport_calls_def)
  show "transport_calls (snd (scp E mc v t a i dry_run port r pt (src # rest) target w))
           = transport_calls w"
  proof (cases rp)
    case (Inl e)
    with pr t1 show ?thesis by (simp add: scp_def)
  next
    case (Inr cmd0)
    obtain rt w2 where tg: "scp_target E mc v t a i (Some dh) cmd0 w1 = (rt, w2)" by fastforce
    note t2 = scp_target_trace(2) [OF tg]
    have "\<exists>e w3. scp_try E mc v t a i dry_run port r pt (src # rest) target cmd0 w1 = (Inl e, w3)
                  \<and> transport_calls w3 = transport_calls w2"
    proof (cases rt)
      case (Inl e)
      with tg tgt show ?thesis by (simp add: scp_try_def Let_def and_then_def)
    next
      case (Inr l)
      from scp_source_remote_to_remote [where src = src, OF src]
      obtain e w3 where "?body src l w2 = (Inl e, w3)"
        and "transport_calls w3 = transport_calls w2" by blast
      with tg tgt Inr show ?thesis by (simp add: scp_try_def Let_def and_then_def)
    qed
    then obtain e w3 where
      tr: "scp_try E mc v t a i dry_run port r pt (src # rest) target cmd0 w1 = (Inl e, w3)"
      and t3: "transport_calls w3 = transport_calls w2" by blast
    obtain re w4 where ex: "scp_except E e w3 = (re, w4)" by fastforce
    then have "calls w4 = calls w3" by (rule scp_except_trace)
    then have "transport_calls w4 = transport_calls w3" by (rule transport_calls_cong)
    with pr Inr tr ex t1 t2 t3 show ?thesis by (simp add: scp_def)
  qed
next
  fix cmd0 w1 tok user w2 tok' user' w3
  assume pr: "scp_prelude E t a i dry_run port r pt w = (Inr cmd0, w1)"
    and r1: "resolve_session E mc v t a i dh w1 = (Inr (tok, user), w2)"
    and r2: "resolve_session E mc v t a i sh w2 = (Inr (tok', user'), w3)"
  from scp_source_remote_to_remote_returns [where src = src, OF src r2]
  show "scp E mc v t a i dry_run port r pt (src # rest) target w
          = (None, emit ''scp between remote hosts not yet supported.'' w3)"
    using pr r1 tgt
    by (simp add: scp_def scp_try_def scp_target_def Let_def and_then_def ret_def)
next
  let ?dp = "case target ''path'' of None \<Rightarrow> ''.'' | Some p \<Rightarrow> p"
  let ?body = "scp_source E mc v t a i dry_run port r pt (Some dh) ?dp"
  let ?all = "scp E mc v t a i dry_run port r pt (pre @ src # rest) target w"
  let ?pre = "scp E mc v t a i dry_run port r pt pre target w"
  obtain rp w1 where pr: "scp_prelude E t a i dry_run port r pt w = (rp, w1)" by fastforce
  show "transport_calls (snd ?all) = transport_calls (snd ?pre)"
  proof (cases rp)
    case (Inl e)
    with pr show ?thesis by (simp add: scp_def)
  next
    case (Inr cmd0)
    note rp = Inr
    obtain rt w2 where tg: "scp_target E mc v t a i (Some dh) cmd0 w1 = (rt, w2)" by fastforce
    show ?thesis
    proof (cases rt)
      case (Inl e)
      with pr rp tg tgt show ?thesis by (simp add: scp_def scp_try_def Let_def and_then_def)
    next
      case (Inr l)
      note rt = Inr
      obtain rl w3 where lp: "for_loop ?body pre l w2 = (rl, w3)" by fastforce
      show ?thesis
      proof (cases rl)
        case (Inl e)
        with lp have "for_loop ?body (pre @ src # rest) l w2 = (Inl e, w3)"
          by (simp add: for_loop_append)
        with pr rp tg rt tgt lp Inl show ?thesis
          by (simp add: scp_def scp_try_def Let_def and_then_def)
      next
        case (Inr l')
        from scp_source_remote_to_remote [where src = src, OF src]
        obtain e w4 where st: "?body src l' w3 = (Inl e, w4)"
          and t4: "transport_calls w4 = transport_calls w3" by blast
        from lp Inr st have "for_loop ?body (pre @ src # rest) l w2 = (Inl e, w4)"
          by (simp add: for_loop_append)
        with pr rp tg rt tgt have all: "?all = scp_except E e w4"
          by (simp add: scp_def scp_try_def Let_def and_then_def)
        obtain re w5 where ex: "scp_except E e w4 = (re, w5)" by fastforce
        then have "calls w5 = calls w4" by (rule scp_except_trace)
        then have "transport_calls w5 = transport_calls w4" by (rule transport_calls_cong)
        with all ex t4 have a: "transport_calls (snd ?all) = transport_calls w3" by simp
        obtain rf w6 where fin: "scp_finish dry_run (Some dh) ?dp l' w3 = (rf, w6)"
          by fastforce
        then have c6: "calls w6 = calls w3" by (rule scp_finish_trace)
        have "calls (snd ?pre) = calls w3"
        proof (cases rf)
          case (Inl e')
          obtain re' w7 where ex': "scp_except E e' w6 = (re', w7)" by fastforce
          then have "calls w7 = calls w6" by (rule scp_except_trace)
          with pr rp tg rt tgt lp Inr fin Inl ex' c6 show ?thesis
            by (simp add: scp_def scp_try_def Let_def and_then_def)
        next
          case (Inr u)
          with pr rp tg rt tgt lp \<open>rl = Inr l'\<close> fin c6 show ?thesis
            by (simp add: scp_def scp_try_def Let_def and_then_def)
        qed
        then have "transport_calls (snd ?pre) = transport_calls w3"
          by (rule transport_calls_cong)
        with a show ?thesis by simp
      qed
    qed
  qed
next
  fix cmd0 w1 l w2 l' w3 tok user w4
  let ?dp = "case target ''path'' of None \<Rightarrow> ''.'' | Some p \<Rightarrow> p"
  let ?body = "scp_source E mc v t a i dry_run port r pt (Some dh) ?dp"
  assume pr: "scp_prelude E t a i dry_run port r pt w = (Inr cmd0, w1)"
    and tg: "scp_target E mc v t a i (Some dh) cmd0 w1 = (Inr l, w2)"
    and lp: "for_loop ?body pre l w2 = (Inr l', w3)"
    and rs: "resolve_session E mc v t a i sh w3 = (Inr (tok, user), w4)"
  from scp_source_remote_to_remote_returns [where src = src, OF src rs]
  have "?body src l' w3
          = (Inl (OtherException ''scp between remote hosts not yet supported.''), w4)" .
  with lp have "for_loop ?body (pre @ src # rest) l w2
          = (Inl (OtherException ''scp between remote hosts not yet supported.''), w4)"
    by (simp add: for_loop_append)
  with pr tg tgt
  show "scp E mc v t a i dry_run port r pt (pre @ src # rest) target w
          = (None, emit ''scp between remote hosts not yet supported.'' w4)"
    by (simp add: scp_def scp_try_def Let_def and_then_def)
qed

text \<open>
  C6 as stated fails when a local source comes first: \<^verbatim>\<open>a.txt\<close> is transferred to
  the target with \<^verbatim>\<open>scp_put\<close> before the remote source is looked at and refused.
\<close>

theorem scp_mixed_sources_counterexample:
  "scp env_demo None True (Some ''T'') None None False 22 False False
     [[''path'' \<mapsto> ''a.txt''], [''host'' \<mapsto> ''h2'', ''path'' \<mapsto> ''b.txt'']]
     [''host'' \<mapsto> ''h1'', ''path'' \<mapsto> ''/tmp''] w0
   = (None,
      \<lparr>calls = [InitEndpoint None ''h1'' True,
                InitToken (Some ''T'') None None ''https://h1'' True,
                InitUser ''https://h1'' ''T'' True,
                ScpPut ''h1'' ''user'' ''T'' 22 ''a.txt'' ''/tmp'' False False,
                InitEndpoint None ''h2'' True,
                InitToken (Some ''T'') None None ''https://h2'' True,
                InitUser ''https://h2'' ''T'' True],
        stdout = [''scp between remote hosts not yet supported.'']\<rparr>)"
  by (simp add: eval_defs run_defs call_defs)

text \<open>
  The amended C6 at a concrete invocation: \<^verbatim>\<open>a.txt\<close>, \<^verbatim>\<open>h2:b.txt\<close> and
  \<^verbatim>\<open>c.txt\<close> to \<^verbatim>\<open>h1:/tmp\<close>. The message is printed after the transfer of
  \<^verbatim>\<open>a.txt\<close>, and \<^verbatim>\<open>c.txt\<close> is never looked at.
\<close>

theorem scp_remote_to_remote_refused_witness:
  "[''host'' \<mapsto> ''h1'', ''path'' \<mapsto> ''/tmp''] ''host'' = Some ''h1''
   \<and> [''host'' \<mapsto> ''h2'', ''path'' \<mapsto> ''b.txt''] ''host'' = Some ''h2''
   \<and> scp env_demo None True (Some ''T'') None None False 22 False False
        ([[''path'' \<mapsto> ''a.txt'']]
           @ [''host'' \<mapsto> ''h2'', ''path'' \<mapsto> ''b.txt''] # [[''path'' \<mapsto> ''c.txt'']])
        [''host'' \<mapsto> ''h1'', ''path'' \<mapsto> ''/tmp''] w0
      = (None,
         \<lparr>calls = [InitEndpoint None ''h1'' True,
                   InitToken (Some ''T'') None None ''https://h1'' True,
                   InitUser ''https://h1'' ''T'' True,
                   ScpPut ''h1'' ''user'' ''T'' 22 ''a.txt'' ''/tmp'' False False,
                   InitEndpoint None ''h2'' True,
                   InitToken (Some ''T'') None None ''https://h2'' True,
                   InitUser ''https://h2'' ''T'' True],
           stdout = [''scp between remote hosts not yet supported.'']\<rparr>)"
proof -
  let ?tgt = "[''host'' \<mapsto> ''h1'', ''path'' \<mapsto> ''/tmp'']"
  let ?src = "[''host'' \<mapsto> ''h2'', ''path'' \<mapsto> ''b.txt'']"
  let ?l = "\<lparr>at = Some ''T'', username = Some ''user'', sshpass_cmd = None\<rparr>"
  let ?w2 = "\<lparr>calls = [InitEndpoint None ''h1'' True,
                   InitToken (Some ''T'') None None ''https://h1'' True,
                   InitUser ''https://h1'' ''T'' True], stdout = []\<rparr>"
  let ?w3 = "\<lparr>calls = [InitEndpoint None ''h1'' True,
                   InitToken (Some ''T'') None None ''https://h1'' True,
                   InitUser ''https://h1'' ''T'' True,
                   ScpPut ''h1'' ''user'' ''T'' 22 ''a.txt'' ''/tmp'' False False],
              stdout = []\<rparr>"
  let ?w4 = "\<lparr>calls = [InitEndpoint None ''h1'' True,
                   InitToken (Some ''T'') None None ''https://h1'' True,
                   InitUser ''https://h1'' ''T'' True,
                   ScpPut ''h1'' ''user'' ''T'' 22 ''a.txt'' ''/tmp'' False False,
                   InitEndpoint None ''h2'' True,
                   InitToken (Some ''T'') None None ''https://h2'' True,
                   InitUser ''https://h2'' ''T'' True], stdout = []\<rparr>"
  have t: "?tgt ''host'' = Some ''h1''" by simp
  have s: "?src ''host'' = Some ''h2''" by simp
  have p: "scp_prelude env_demo (Some ''T'') None None False 22 False False w0 = (Inr None, w0)"
    by (simp add: scp_prelude_def ret_def)
  have g: "scp_target env_demo None True (Some ''T'') None None (Some ''h1'') None w0
             = (Inr ?l, ?w2)"
    by (simp add: scp_target_def resolve_session_def call_defs run_defs env_demo_def w0_def)
  have f: "for_loop
             (scp_source env_demo None True (Some ''T'') None None False 22 False False
                (Some ''h1'') (case ?tgt ''path'' of None \<Rightarrow> ''.'' | Some p \<Rightarrow> p))
             [[''path'' \<mapsto> ''a.txt'']] ?l ?w2 = (Inr ?l, ?w3)"
    by (simp add: scp_source_def Let_def call_defs run_defs env_demo_def)
  have r: "resolve_session env_demo None True (Some ''T'') None None ''h2'' ?w3
              = (Inr (''T'', ''user''), ?w4)"
    by (simp add: resolve_session_def call_defs run_defs env_demo_def)
  note inst = scp_remote_to_remote_refused
         [where target = ?tgt and src = ?src and E = env_demo and mc = None and v = True
            and t = "Some ''T''" and a = None and i = None and dry_run = False and port = 22
            and r = False and pt = False and w = w0 and pre = "[[''path'' \<mapsto> ''a.txt'']]"
            and rest = "[[''path'' \<mapsto> ''c.txt'']]", OF t s]
  from inst [THEN conjunct2, THEN conjunct2, THEN conjunct2, THEN conjunct2, rule_format,
            OF p g f r]
  have "scp env_demo None True (Some ''T'') None None False 22 False False
          ([[''path'' \<mapsto> ''a.txt'']] @ ?src # [[''path'' \<mapsto> ''c.txt'']]) ?tgt w0
        = (None, emit ''scp between remote hosts not yet supported.'' ?w4)" .
  with t s show ?thesis by (simp add: emit_def)
qed

subsection \<open>C8\<close>



subsection \<open>C9\<close>

text \<open>
  C9. Every invocation of the \<^verbatim>\<open>sftp\<close> subcommand prints exactly the line
  \<^verbatim>\<open>Not implemented.\<close> and does nothing else: no function of the sibling modules
  is called, no exception leaves the function, nothing else is printed.
\<close>

theorem sftp_prints_not_implemented:
  "sftp w = (None, w\<lparr>stdout := stdout w @ [''Not implemented.'']\<rparr>)
   \<and> calls (snd (sftp w)) = calls w"
  by (simp add: sftp_def emit_def)

subsection \<open>C10\<close>

text \<open>
  C10. The port 0 is not the default port, and yet a dry run with the port 0 prints no
  port flag: the guard also asks for the port to be truthy. For \<^verbatim>\<open>ssh\<close> and for
  \<^verbatim>\<open>scp\<close> the dry run with the port 0 is the dry run with the default port, the
  option string of \<^verbatim>\<open>ssh\<close> is empty and that of \<^verbatim>\<open>scp\<close> contains no \<^verbatim>\<open>-P\<close>. A
  dry run of \<^verbatim>\<open>ssh\<close> that prints its command line prints it with nothing between
  \<^verbatim>\<open>ssh\<close> and the host, and a dry run of \<^verbatim>\<open>scp\<close> that prints its command line
  prints exactly the reference line \<open>scp_command_line\<close> for the option string made
  of \<^verbatim>\<open>-r\<close> and \<^verbatim>\<open>-p\<close> as they are set: the password, these flags, the operands
  of the sources and of the target, and nothing else.
\<close>

theorem dry_run_port_zero_has_no_flag:
  "ssh E mc v t a i True 0 hostname command w
     = ssh E mc v t a i True SSH_PORT hostname command w
   \<and> scp E mc v t a i True 0 r pt source target w
     = scp E mc v t a i True SSH_PORT r pt source target w
   \<and> (0 :: int) \<noteq> SSH_PORT
   \<and> ssh_opts 0 = ''''
   \<and> \<not> sublist ''-P'' (scp_opts r pt 0)
   \<and> (\<forall>tok user w1 password w2.
        resolve_session E mc v t a i hostname w = (Inr (tok, user), w1) \<longrightarrow>
        call_str_init_token E t a i w1 = (Inr password, w2) \<longrightarrow>
        ssh E mc v t a i True 0 hostname command w
          = (None, emit (''sshpass -P 'Access Token' -p '' @ password @ '' ssh  '' @ user
                           @ ''@'' @ hostname @ command_suffix command) w2))
   \<and> (\<forall>cmd0 w1 u w2.
        scp_prelude E t a i True 0 r pt w = (Inr cmd0, w1) \<longrightarrow>
        scp_try E mc v t a i True 0 r pt source target cmd0 w1 = (Inr u, w2) \<longrightarrow>
        (\<exists>line w3.
           scp_command_line E mc v t a i
             ((if r then '' -r'' else '''') @ (if pt then '' -p'' else '''')) source target w
             = Some (line, w3)
           \<and> scp E mc v t a i True 0 r pt source target w = (None, emit line w3)))"
proof (intro conjI allI impI)
  have "ssh_try E mc v t a i True 0 hostname command
          = ssh_try E mc v t a i True SSH_PORT hostname command"
    by (simp add: ssh_try_def ssh_opts_default_port)
  then show "ssh E mc v t a i True 0 hostname command w
               = ssh E mc v t a i True SSH_PORT hostname command w"
    by (simp add: ssh_def)
next
  have body: "scp_source E mc v t a i True 0 r pt dh dp
                = scp_source E mc v t a i True SSH_PORT r pt dh dp" for dh dp
    by (intro ext) (unfold scp_source_def if_True, rule refl)
  have pre: "scp_prelude E t a i True 0 r pt = scp_prelude E t a i True SSH_PORT r pt"
    by (simp add: scp_prelude_def scp_opts_default_port scp_opts_port_zero)
  have eq: "scp_try E mc v t a i True 0 r pt source target
              = scp_try E mc v t a i True SSH_PORT r pt source target"
    by (intro ext) (simp add: scp_try_def body)
  show "scp E mc v t a i True 0 r pt source target w
          = scp E mc v t a i True SSH_PORT r pt source target w"
    unfolding scp_def pre eq by (rule refl)
next
  show "(0 :: int) \<noteq> SSH_PORT" by (simp add: SSH_PORT_def)
  show "ssh_opts 0 = ''''" by (simp add: ssh_opts_def)
  show "\<not> sublist ''-P'' (scp_opts r pt 0)" by (simp only: scp_opts_P) simp
next
  fix tok user w1 password w2
  assume "resolve_session E mc v t a i hostname w = (Inr (tok, user), w1)"
    and "call_str_init_token E t a i w1 = (Inr password, w2)"
  from ssh_dry_run_line [OF this, of 0 command]
  show "ssh E mc v t a i True 0 hostname command w
          = (None, emit (''sshpass -P 'Access Token' -p '' @ password @ '' ssh  '' @ user
                           @ ''@'' @ hostname @ command_suffix command) w2)"
    by (simp add: ssh_opts_default_port)
next
  fix cmd0 w1 u w2
  assume pr: "scp_prelude E t a i True 0 r pt w = (Inr cmd0, w1)"
    and tr: "scp_try E mc v t a i True 0 r pt source target cmd0 w1 = (Inr u, w2)"
  from scp_dry_run_prints_line [OF pr tr]
  show "\<exists>line w3.
           scp_command_line E mc v t a i
             ((if r then '' -r'' else '''') @ (if pt then '' -p'' else '''')) source target w
             = Some (line, w3)
           \<and> scp E mc v t a i True 0 r pt source target w = (None, emit line w3)"
    by (simp only: scp_opts_port_zero)
qed

text \<open>
  C10 at the dry runs of \<^verbatim>\<open>ssh --token T --dry-run -p 0 host\<close> and of
  \<^verbatim>\<open>scp --token T --dry-run -P 0 h:a.txt /tmp\<close>.
\<close>

theorem dry_run_port_zero_has_no_flag_witness:
  "ssh env_demo None True (Some ''T'') None None True 0 ''host'' None w0
     = (None,
        \<lparr>calls = [InitEndpoint None ''host'' True,
                  InitToken (Some ''T'') None None ''https://host'' True,
                  InitUser ''https://host'' ''T'' True,
                  StrInitToken (Some ''T'') None None],
          stdout = [''sshpass -P 'Access Token' -p T ssh  user@host'']\<rparr>)
   \<and> scp env_demo None True (Some ''T'') None None True 0 False False
       [[''host'' \<mapsto> ''h'', ''path'' \<mapsto> ''a.txt'']] [''path'' \<mapsto> ''/tmp''] w0
     = (None,
        \<lparr>calls = [StrInitToken (Some ''T'') None None,
                  InitEndpoint None ''h'' True,
                  InitToken (Some ''T'') None None ''https://h'' True,
                  InitUser ''https://h'' ''T'' True],
          stdout = [''sshpass -P 'Access Token' -p T scp  user@h:a.txt /tmp'']\<rparr>)"
proof
  let ?w1 = "\<lparr>calls = [InitEndpoint None ''host'' True,
                  InitToken (Some ''T'') None None ''https://host'' True,
                  InitUser ''https://host'' ''T'' True], stdout = []\<rparr>"
  let ?w2 = "\<lparr>calls = [InitEndpoint None ''host'' True,
                  InitToken (Some ''T'') None None ''https://host'' True,
                  InitUser ''https://host'' ''T'' True,
                  StrInitToken (Some ''T'') None None], stdout = []\<rparr>"
  have r: "resolve_session env_demo None True (Some ''T'') None None ''host'' w0
             = (Inr (''T'', ''user''), ?w1)"
    by (simp add: resolve_session_def call_defs run_defs env_demo_def w0_def)
  have p: "call_str_init_token env_demo (Some ''T'') None None ?w1 = (Inr ''T'', ?w2)"
    by (simp add: call_defs run_defs env_demo_def)
  from dry_run_port_zero_has_no_flag
         [where E = env_demo and mc = None and v = True and t = "Some ''T''" and a = None
            and i = None and hostname = "''host''" and w = w0 and command = None,
          THEN conjunct2, THEN conjunct2, THEN conjunct2, THEN conjunct2, THEN conjunct2,
          THEN conjunct1, rule_format, OF r p]
  have "ssh env_demo None True (Some ''T'') None None True 0 ''host'' None w0
          = (None, emit (''sshpass -P 'Access Token' -p '' @ ''T'' @ '' ssh  '' @ ''user''
                           @ ''@'' @ ''host'' @ command_suffix None) ?w2)" .
  then show "ssh env_demo None True (Some ''T'') None None True 0 ''host'' None w0
     = (None,
        \<lparr>calls = [InitEndpoint None ''host'' True,
                  InitToken (Some ''T'') None None ''https://host'' True,
                  InitUser ''https://host'' ''T'' True,
                  StrInitToken (Some ''T'') None None],
          stdout = [''sshpass -P 'Access Token' -p T ssh  user@host'']\<rparr>)"
    by (simp add: emit_def command_suffix_def)
next
  let ?src = "[[''host'' \<mapsto> ''h'', ''path'' \<mapsto> ''a.txt'']]"
  let ?tgt = "[''path'' \<mapsto> ''/tmp'']"
  let ?cmd0 = "Some ''sshpass -P 'Access Token' -p T scp ''"
  let ?w1 = "\<lparr>calls = [StrInitToken (Some ''T'') None None], stdout = []\<rparr>"
  let ?w3 = "\<lparr>calls = [StrInitToken (Some ''T'') None None,
                  InitEndpoint None ''h'' True,
                  InitToken (Some ''T'') None None ''https://h'' True,
                  InitUser ''https://h'' ''T'' True], stdout = []\<rparr>"
  let ?line = "''sshpass -P 'Access Token' -p T scp  user@h:a.txt /tmp''"
  have p: "scp_prelude env_demo (Some ''T'') None None True 0 False False w0
             = (Inr ?cmd0, ?w1)"
    by (simp add: scp_prelude_def scp_opts_def call_defs run_defs env_demo_def w0_def)
  have tr: "scp_try env_demo None True (Some ''T'') None None True 0 False False
              ?src ?tgt ?cmd0 ?w1 = (Inr (), emit ?line ?w3)"
    by (simp add: scp_try_def scp_target_def scp_source_def scp_finish_def resolve_session_def
                  Let_def call_defs run_defs env_demo_def)
  have cl: "scp_command_line env_demo None True (Some ''T'') None None
              ((if False then '' -r'' else '''') @ (if False then '' -p'' else ''''))
              ?src ?tgt w0 = Some (?line, ?w3)"
    by (simp add: scp_command_line_def target_operand_def path_of_def resolve_session_def
                  call_defs run_defs env_demo_def w0_def)
  from dry_run_port_zero_has_no_flag
         [where E = env_demo and mc = None and v = True and t = "Some ''T''" and a = None
            and i = None and w = w0 and r = False and pt = False and source = ?src
            and target = ?tgt,
          THEN conjunct2, THEN conjunct2, THEN conjunct2, THEN conjunct2, THEN conjunct2,
          THEN conjunct2, rule_format, OF p tr]
  obtain line w3 where
    a: "scp_command_line env_demo None True (Some ''T'') None None
       ((if False then '' -r'' else '''') @ (if False then '' -p'' else ''''))
       ?src ?tgt w0 = Some (line, w3)"
    and b: "scp env_demo None True (Some ''T'') None None True 0 False False ?src ?tgt w0
           = (None, emit line w3)" by blast
  from a cl have "line = ?line" and "w3 = ?w3" by simp_all
  with b show "scp env_demo None True (Some ''T'') None None True 0 False False
       [[''host'' \<mapsto> ''h'', ''path'' \<mapsto> ''a.txt'']] [''path'' \<mapsto> ''/tmp''] w0
     = (None,
        \<lparr>calls = [StrInitToken (Some ''T'') None None,
                  InitEndpoint None ''h'' True,
                  InitToken (Some ''T'') None None ''https://h'' True,
                  InitUser ''https://h'' ''T'' True],
          stdout = [''sshpass -P 'Access Token' -p T scp  user@h:a.txt /tmp'']\<rparr>)"
    by (simp add: emit_def)
qed

end
